theory Spec2Isabelle
  imports Main "HOL-Library.Sublist"
begin

section \<open>The provisioning script of the Chargebee / Hookdeck demo\<close>

text \<open>
  The repository holds two revisions of \<^verbatim>\<open>scripts/upsert-connections.ts\<close>: an earlier one
  that talks to the billing provider with \<^verbatim>\<open>makeHttpRequest\<close> (definitions suffixed
  \<open>_fetch\<close>) and a later one that uses the Chargebee SDK and the list
  \<^verbatim>\<open>ALL_WEBHOOK_EVENTS\<close> of \<^verbatim>\<open>scripts/shared.ts\<close> (definitions suffixed \<open>_sdk\<close>).
  Functions whose text is the same in both revisions are modelled once.

  Effects are explicit. The environment \<^verbatim>\<open>process.env\<close> is a map, an exception is the
  \<open>Inl\<close> of a sum, and every function that reaches a remote service returns the list
  of requests it issued, in order, beside its result. The remote services are a function
  from a request to its reply, so that the model runs on any behaviour of theirs.
  A request is recorded with the arguments the script gives it; how
  \<^verbatim>\<open>makeHttpRequest\<close> and the SDK encode it on the wire is not modelled. Output of
  \<^verbatim>\<open>console.log\<close> is not modelled; what \<^verbatim>\<open>main\<close> prints with
  \<^verbatim>\<open>console.error\<close> is.
\<close>

subsection \<open>Environment lookup (\<^verbatim>\<open>shared.ts\<close>)\<close>

type_synonym env = "string \<Rightarrow> string option"

datatype error =
    MissingEnvVar string
  | SourceMissingUrl
  | SourceUrlUndefined
  | RequestFailed string

text \<open>
  JavaScript's \<^verbatim>\<open>!value\<close> on a value of type \<^verbatim>\<open>string | undefined\<close>: true on
  \<^verbatim>\<open>undefined\<close> and on the empty string.
\<close>

definition falsy :: "string option \<Rightarrow> bool" where
  "falsy value = (case value of None \<Rightarrow> True | Some s \<Rightarrow> s = [])"

definition getEnvVar :: "env \<Rightarrow> string \<Rightarrow> error + string" where
  "getEnvVar env name =
     (case env name of
        None \<Rightarrow> Inl (MissingEnvVar name)
      | Some v \<Rightarrow> if v = [] then Inl (MissingEnvVar name) else Inr v)"

subsection \<open>Types (\<^verbatim>\<open>shared.ts\<close>)\<close>

text \<open>\<^verbatim>\<open>type Mode = "dev" | "prod"\<close>\<close>

datatype Mode = Dev | Prod

record Source =
  src_name :: string
  src_type :: string
  src_config_auth_username :: string
  src_config_auth_password :: string

record Destination =
  dst_name :: string
  dst_type :: string
  dst_config_path :: "string option"
  dst_config_url :: "string option"

text \<open>
  A rule \<^verbatim>\<open>{ type: "filter", body: { event_type: { $eq: "payment_succeeded" } } }\<close>:
  its type, the payload field it tests, the operator key and the operand.
\<close>

record filter_rule =
  rule_type :: string
  rule_body_field :: string
  rule_body_operator :: string
  rule_body_operand :: string

text \<open>The optional \<^verbatim>\<open>source\<close> of a connection is never set by the script and is left out.\<close>

record HookdeckConnection =
  conn_name :: string
  conn_source_id :: "string option"
  conn_destination :: Destination
  conn_rules :: "filter_rule list"

text \<open>Modelled from the spec: the type \<^verbatim>\<open>ChargebeeWebhookEndpoint\<close>, which the script imports
  from \<^verbatim>\<open>shared.ts\<close> and which is not declared there. The spec gives a billing webhook
  endpoint an \<^verbatim>\<open>id\<close> and a \<^verbatim>\<open>name\<close>, the two attributes the script reads.
\<close>

record ChargebeeWebhookEndpoint =
  ep_id :: string
  ep_name :: string

record list_item =
  webhook_endpoint :: ChargebeeWebhookEndpoint

text \<open>The object literals sent to the billing provider.\<close>

datatype json = JString string | JArray "json list" | JObject "(string \<times> json) list"

fun field :: "string \<Rightarrow> json \<Rightarrow> json option" where
  "field k (JObject kvs) = map_of kvs k"
| "field k _ = None"

subsection \<open>Requests and replies\<close>

text \<open>
  One constructor for each function of the script that sends a request, with the
  arguments that make the request: the two gateway upserts (API key and body), the three
  billing calls of the earlier revision (API key, site, endpoint id, body) and the three
  SDK calls of the later revision.
\<close>

datatype call =
    PutSource string Source
  | PutConnection string HookdeckConnection
  | GetEndpoints string string
  | PostUpdateEndpoint string string string json
  | PostCreateEndpoint string string json
  | SdkListEndpoints
  | SdkUpdateEndpoint string json
  | SdkCreateEndpoint json

text \<open>
  A reply is the parsed JSON of a response, typed \<^verbatim>\<open>any\<close> in the script, with the
  three members the script reads; each may be absent. A request that fails
  (\<^verbatim>\<open>makeHttpRequest\<close> throws on a response that is not \<^verbatim>\<open>ok\<close>, the SDK rejects)
  is \<open>Inl\<close> with its message.
\<close>

record reply =
  reply_id :: "string option"
  reply_url :: "string option"
  reply_list :: "list_item list option"

type_synonym remote = "call \<Rightarrow> string + reply"

subsection \<open>Event lists\<close>

text \<open>Modelled from the spec: the enum \<^verbatim>\<open>WebhookEventType\<close> of the \<^verbatim>\<open>chargebee\<close> package,
  which is not part of the repository. Its members' values are the event type identifiers
  of the spec, spelled as the earlier revision's literal list and
  \<^verbatim>\<open>ESSENTIAL_WEBHOOK_EVENTS\<close> spell them.
\<close>

datatype WebhookEventType =
    CustomerCreated | CustomerChanged | CustomerDeleted | CustomerMovedIn | CustomerMovedOut
  | SubscriptionCreated | SubscriptionStarted | SubscriptionActivated | SubscriptionChanged
  | SubscriptionCancelled | SubscriptionReactivated | SubscriptionRenewed
  | SubscriptionScheduledCancellationRemoved | SubscriptionChangesScheduled
  | SubscriptionScheduledChangesRemoved | SubscriptionShippingAddressUpdated
  | SubscriptionDeleted | SubscriptionResumed | SubscriptionPaused
  | PaymentSucceeded

fun event_type_value :: "WebhookEventType \<Rightarrow> string" where
  "event_type_value CustomerCreated = ''customer_created''"
| "event_type_value CustomerChanged = ''customer_changed''"
| "event_type_value CustomerDeleted = ''customer_deleted''"
| "event_type_value CustomerMovedIn = ''customer_moved_in''"
| "event_type_value CustomerMovedOut = ''customer_moved_out''"
| "event_type_value SubscriptionCreated = ''subscription_created''"
| "event_type_value SubscriptionStarted = ''subscription_started''"
| "event_type_value SubscriptionActivated = ''subscription_activated''"
| "event_type_value SubscriptionChanged = ''subscription_changed''"
| "event_type_value SubscriptionCancelled = ''subscription_cancelled''"
| "event_type_value SubscriptionReactivated = ''subscription_reactivated''"
| "event_type_value SubscriptionRenewed = ''subscription_renewed''"
| "event_type_value SubscriptionScheduledCancellationRemoved =
     ''subscription_scheduled_cancellation_removed''"
| "event_type_value SubscriptionChangesScheduled = ''subscription_changes_scheduled''"
| "event_type_value SubscriptionScheduledChangesRemoved =
     ''subscription_scheduled_changes_removed''"
| "event_type_value SubscriptionShippingAddressUpdated =
     ''subscription_shipping_address_updated''"
| "event_type_value SubscriptionDeleted = ''subscription_deleted''"
| "event_type_value SubscriptionResumed = ''subscription_resumed''"
| "event_type_value SubscriptionPaused = ''subscription_paused''"
| "event_type_value PaymentSucceeded = ''payment_succeeded''"

definition ALL_WEBHOOK_EVENTS :: "string list" where
  "ALL_WEBHOOK_EVENTS = map event_type_value
     [CustomerCreated, CustomerChanged, CustomerDeleted, CustomerMovedIn, CustomerMovedOut,
      SubscriptionCreated, SubscriptionStarted, SubscriptionActivated, SubscriptionChanged,
      SubscriptionCancelled, SubscriptionReactivated, SubscriptionRenewed,
      SubscriptionScheduledCancellationRemoved, SubscriptionChangesScheduled,
      SubscriptionScheduledChangesRemoved, SubscriptionShippingAddressUpdated,
      SubscriptionDeleted, SubscriptionResumed, SubscriptionPaused,
      PaymentSucceeded]"

subsection \<open>Resource names (\<^verbatim>\<open>shared.ts\<close>)\<close>

definition PROJECT_SOURCE_NAME :: string where
  "PROJECT_SOURCE_NAME = ''chargebee''"

record role_names =
  customer :: string
  subscription :: string
  payment :: string

definition PROJECT_CONNECTION_NAMES :: role_names where
  "PROJECT_CONNECTION_NAMES =
     \<lparr>customer = ''chargebee-customer'', subscription = ''chargebee-subscription'',
      payment = ''chargebee-payment''\<rparr>"

definition PROJECT_DESTINATION_NAMES :: role_names where
  "PROJECT_DESTINATION_NAMES =
     \<lparr>customer = ''chargebee-customer-handler'',
      subscription = ''chargebee-subscription-handler'',
      payment = ''chargebee-payment-handler''\<rparr>"

subsection \<open>Gateway functions (both revisions)\<close>

text \<open>
  \<^verbatim>\<open>upsertHookdeckSource\<close>: the request is sent; a failed request throws, and so does a
  reply whose \<^verbatim>\<open>url\<close> is falsy.
\<close>

definition upsertHookdeckSource ::
  "string \<Rightarrow> Source \<Rightarrow> remote \<Rightarrow> call list \<times> (error + reply)" where
  "upsertHookdeckSource apiKey source remote =
     ([PutSource apiKey source],
      case remote (PutSource apiKey source) of
        Inl msg \<Rightarrow> Inl (RequestFailed msg)
      | Inr response \<Rightarrow>
          if falsy (reply_url response) then Inl SourceMissingUrl else Inr response)"

definition upsertHookdeckConnection ::
  "string \<Rightarrow> HookdeckConnection \<Rightarrow> remote \<Rightarrow> call list \<times> (error + reply)" where
  "upsertHookdeckConnection apiKey connection remote =
     ([PutConnection apiKey connection],
      case remote (PutConnection apiKey connection) of
        Inl msg \<Rightarrow> Inl (RequestFailed msg)
      | Inr response \<Rightarrow> Inr response)"

text \<open>
  The helper \<^verbatim>\<open>createDestination\<close> of \<^verbatim>\<open>setupHookdeckConnections\<close>, a closure over
  \<^verbatim>\<open>mode\<close>. In prod mode it reads \<^verbatim>\<open>PROD_DESTINATION_URL\<close>, which throws when the
  variable is missing.
\<close>

definition createDestination :: "Mode \<Rightarrow> env \<Rightarrow> string \<Rightarrow> string \<Rightarrow> error + Destination" where
  "createDestination mode env name path =
     (if mode = Dev
      then Inr \<lparr>dst_name = name, dst_type = ''CLI'',
                dst_config_path = Some path, dst_config_url = None\<rparr>
      else case getEnvVar env ''PROD_DESTINATION_URL'' of
             Inl e \<Rightarrow> Inl e
           | Inr base \<Rightarrow>
               Inr \<lparr>dst_name = name, dst_type = ''HTTP'',
                    dst_config_path = None, dst_config_url = Some (base @ path)\<rparr>)"

text \<open>
  The array \<^verbatim>\<open>connections\<close>, built in the order customer, subscription, payment. The
  two revisions differ in one thing only: the operator key of the two prefix rules,
  \<^verbatim>\<open>$starts_with\<close> in the earlier and \<^verbatim>\<open>$startsWith\<close> in the later one, here the
  first argument.
\<close>

definition connections ::
  "string \<Rightarrow> Mode \<Rightarrow> env \<Rightarrow> string option \<Rightarrow> error + HookdeckConnection list" where
  "connections startsWithKey mode env hookdeckSourceId =
     (case createDestination mode env (customer PROJECT_DESTINATION_NAMES)
             ''/webhooks/chargebee/customer'' of
        Inl e \<Rightarrow> Inl e
      | Inr d1 \<Rightarrow>
     (case createDestination mode env (subscription PROJECT_DESTINATION_NAMES)
             ''/webhooks/chargebee/subscription'' of
        Inl e \<Rightarrow> Inl e
      | Inr d2 \<Rightarrow>
     (case createDestination mode env (payment PROJECT_DESTINATION_NAMES)
             ''/webhooks/chargebee/payments'' of
        Inl e \<Rightarrow> Inl e
      | Inr d3 \<Rightarrow>
          Inr [\<lparr>conn_name = customer PROJECT_CONNECTION_NAMES,
                conn_source_id = hookdeckSourceId,
                conn_destination = d1,
                conn_rules = [\<lparr>rule_type = ''filter'', rule_body_field = ''event_type'',
                               rule_body_operator = startsWithKey,
                               rule_body_operand = ''customer_''\<rparr>]\<rparr>,
               \<lparr>conn_name = subscription PROJECT_CONNECTION_NAMES,
                conn_source_id = hookdeckSourceId,
                conn_destination = d2,
                conn_rules = [\<lparr>rule_type = ''filter'', rule_body_field = ''event_type'',
                               rule_body_operator = startsWithKey,
                               rule_body_operand = ''subscription_''\<rparr>]\<rparr>,
               \<lparr>conn_name = payment PROJECT_CONNECTION_NAMES,
                conn_source_id = hookdeckSourceId,
                conn_destination = d3,
                conn_rules = [\<lparr>rule_type = ''filter'', rule_body_field = ''event_type'',
                               rule_body_operator = ''$eq'',
                               rule_body_operand = ''payment_succeeded''\<rparr>]\<rparr>])))"

text \<open>
  The loop \<^verbatim>\<open>for (const connection of connections) await upsertHookdeckConnection(...)\<close>:
  the first failure throws out of the loop.
\<close>

fun upsert_each :: "string \<Rightarrow> HookdeckConnection list \<Rightarrow> remote \<Rightarrow> call list \<times> (error + unit)" where
  "upsert_each apiKey [] remote = ([], Inr ())"
| "upsert_each apiKey (connection # rest) remote =
     (case upsertHookdeckConnection apiKey connection remote of
        (t, Inl e) \<Rightarrow> (t, Inl e)
      | (t, Inr _) \<Rightarrow>
          (case upsert_each apiKey rest remote of (t', r) \<Rightarrow> (t @ t', r)))"

text \<open>
  \<^verbatim>\<open>setupHookdeckConnections\<close>. The API key and the two webhook credentials are read
  before the Source request is sent (they are its arguments); the destinations are
  built after it.
\<close>

definition setupHookdeckConnections ::
  "string \<Rightarrow> Mode \<Rightarrow> env \<Rightarrow> remote \<Rightarrow> call list \<times> (error + string)" where
  "setupHookdeckConnections startsWithKey mode env remote =
     (case getEnvVar env ''HOOKDECK_API_KEY'' of
        Inl e \<Rightarrow> ([], Inl e)
      | Inr apiKey \<Rightarrow>
     (case getEnvVar env ''CHARGEBEE_WEBHOOK_USERNAME'' of
        Inl e \<Rightarrow> ([], Inl e)
      | Inr username \<Rightarrow>
     (case getEnvVar env ''CHARGEBEE_WEBHOOK_PASSWORD'' of
        Inl e \<Rightarrow> ([], Inl e)
      | Inr password \<Rightarrow>
     (case upsertHookdeckSource apiKey
             \<lparr>src_name = PROJECT_SOURCE_NAME, src_type = ''CHARGEBEE_BILLING'',
              src_config_auth_username = username,
              src_config_auth_password = password\<rparr> remote of
        (t, Inl e) \<Rightarrow> (t, Inl e)
      | (t, Inr sourceResponse) \<Rightarrow>
     (case reply_url sourceResponse of
        None \<Rightarrow> (t, Inl SourceUrlUndefined)
      | Some hookdeckSourceUrl \<Rightarrow>
          if hookdeckSourceUrl = [] then (t, Inl SourceUrlUndefined)
          else
     (case connections startsWithKey mode env (reply_id sourceResponse) of
        Inl e \<Rightarrow> (t, Inl e)
      | Inr cs \<Rightarrow>
     (case upsert_each apiKey cs remote of
        (t', Inl e) \<Rightarrow> (t @ t', Inl e)
      | (t', Inr _) \<Rightarrow> (t @ t', Inr hookdeckSourceUrl))))))))"

definition setupHookdeckConnections_fetch ::
  "Mode \<Rightarrow> env \<Rightarrow> remote \<Rightarrow> call list \<times> (error + string)" where
  "setupHookdeckConnections_fetch = setupHookdeckConnections ''$starts_with''"

definition setupHookdeckConnections_sdk ::
  "Mode \<Rightarrow> env \<Rightarrow> remote \<Rightarrow> call list \<times> (error + string)" where
  "setupHookdeckConnections_sdk = setupHookdeckConnections ''$startsWith''"

subsection \<open>Filter rules\<close>

text \<open>Modelled from the spec: the gateway's evaluation of a filter rule against an event type.
  The gateway is a remote service; the spec reads the rule of the customer and of the
  subscription Connection as a starts-with predicate and the rule of the payment
  Connection as an equals predicate, in both spellings of the operator key.
\<close>

definition rule_matches :: "filter_rule \<Rightarrow> string \<Rightarrow> bool" where
  "rule_matches r event_type =
     (if rule_body_operator r = ''$startsWith'' \<or> rule_body_operator r = ''$starts_with''
      then prefix (rule_body_operand r) event_type
      else if rule_body_operator r = ''$eq''
      then event_type = rule_body_operand r
      else False)"

definition connection_matches :: "HookdeckConnection \<Rightarrow> string \<Rightarrow> bool" where
  "connection_matches c event_type = list_all (\<lambda>r. rule_matches r event_type) (conn_rules c)"

subsection \<open>Billing functions, earlier revision (\<^verbatim>\<open>makeHttpRequest\<close>)\<close>

text \<open>
  \<^verbatim>\<open>getChargebeeWebhookEndpoints\<close> catches a failed request and returns the empty array;
  a reply without \<^verbatim>\<open>list\<close> gives the empty array too
  (\<^verbatim>\<open>response.list?.map(...) || []\<close>). It never throws.
\<close>

definition getChargebeeWebhookEndpoints_fetch ::
  "string \<Rightarrow> string \<Rightarrow> remote \<Rightarrow> call list \<times> ChargebeeWebhookEndpoint list" where
  "getChargebeeWebhookEndpoints_fetch apiKey siteName remote =
     ([GetEndpoints apiKey siteName],
      case remote (GetEndpoints apiKey siteName) of
        Inl err \<Rightarrow> []
      | Inr response \<Rightarrow>
          (case reply_list response of
             None \<Rightarrow> []
           | Some items \<Rightarrow> map webhook_endpoint items))"

definition updateChargebeeWebhookEndpoint_fetch ::
  "string \<Rightarrow> string \<Rightarrow> string \<Rightarrow> string \<Rightarrow> string \<Rightarrow> string \<Rightarrow> remote
     \<Rightarrow> call list \<times> (error + unit)" where
  "updateChargebeeWebhookEndpoint_fetch apiKey siteName endpointId webhookUrl username password
       remote =
     (let eventTypes =
             [''customer_created'', ''customer_updated'', ''customer_deleted'',
              ''customer_changed'', ''customer_moved_in'', ''customer_moved_out'',
              ''subscription_created'', ''subscription_started'',
              ''subscription_activated'', ''subscription_changed'',
              ''subscription_cancelled'', ''subscription_reactivated'',
              ''subscription_renewed'', ''subscription_scheduled_cancellation_removed'',
              ''subscription_changes_scheduled'',
              ''subscription_scheduled_changes_removed'',
              ''subscription_shipping_address_updated'', ''subscription_deleted'',
              ''subscription_paused'', ''subscription_resumed'',
              ''payment_succeeded''];
          body = JObject
             [(''url'', JString webhookUrl),
              (''webhook_events'', JArray (map JString eventTypes)),
              (''api_version'', JString ''v2''),
              (''webhook_authentication'', JObject
                 [(''type'', JString ''basic_auth''),
                  (''username'', JString username),
                  (''password'', JString password)])]
      in ([PostUpdateEndpoint apiKey siteName endpointId body],
          case remote (PostUpdateEndpoint apiKey siteName endpointId body) of
            Inl msg \<Rightarrow> Inl (RequestFailed msg)
          | Inr _ \<Rightarrow> Inr ()))"

definition createChargebeeWebhookEndpoint_fetch ::
  "string \<Rightarrow> string \<Rightarrow> string \<Rightarrow> string \<Rightarrow> string \<Rightarrow> remote
     \<Rightarrow> call list \<times> (error + unit)" where
  "createChargebeeWebhookEndpoint_fetch apiKey siteName webhookUrl username password remote =
     (let eventTypes =
             [''customer_created'', ''customer_updated'', ''customer_deleted'',
              ''customer_changed'', ''customer_moved_in'', ''customer_moved_out'',
              ''subscription_created'', ''subscription_started'',
              ''subscription_activated'', ''subscription_changed'',
              ''subscription_cancelled'', ''subscription_reactivated'',
              ''subscription_renewed'', ''subscription_scheduled_cancellation_removed'',
              ''subscription_changes_scheduled'',
              ''subscription_scheduled_changes_removed'',
              ''subscription_shipping_address_updated'', ''subscription_deleted'',
              ''subscription_paused'', ''subscription_resumed'',
              ''payment_succeeded''];
          body = JObject
             [(''name'', JString ''Hookdeck Webhook Endpoint''),
              (''url'', JString webhookUrl),
              (''webhook_events'', JArray (map JString eventTypes)),
              (''api_version'', JString ''v2''),
              (''webhook_authentication'', JObject
                 [(''type'', JString ''basic_auth''),
                  (''username'', JString username),
                  (''password'', JString password)])]
      in ([PostCreateEndpoint apiKey siteName body],
          case remote (PostCreateEndpoint apiKey siteName body) of
            Inl msg \<Rightarrow> Inl (RequestFailed msg)
          | Inr _ \<Rightarrow> Inr ()))"

text \<open>
  \<^verbatim>\<open>setupChargebeeWebhook\<close>: four variables are read, the endpoints are listed, and
  \<^verbatim>\<open>find\<close> takes the first endpoint with the well-known name. The mode is used for
  logging only.
\<close>

definition setupChargebeeWebhook_fetch ::
  "Mode \<Rightarrow> string \<Rightarrow> env \<Rightarrow> remote \<Rightarrow> call list \<times> (error + unit)" where
  "setupChargebeeWebhook_fetch mode hookdeckSourceUrl env remote =
     (case getEnvVar env ''CHARGEBEE_API_KEY'' of
        Inl e \<Rightarrow> ([], Inl e)
      | Inr chargebeeApiKey \<Rightarrow>
     (case getEnvVar env ''CHARGEBEE_SITE'' of
        Inl e \<Rightarrow> ([], Inl e)
      | Inr chargebeeSite \<Rightarrow>
     (case getEnvVar env ''CHARGEBEE_WEBHOOK_USERNAME'' of
        Inl e \<Rightarrow> ([], Inl e)
      | Inr webhookUsername \<Rightarrow>
     (case getEnvVar env ''CHARGEBEE_WEBHOOK_PASSWORD'' of
        Inl e \<Rightarrow> ([], Inl e)
      | Inr webhookPassword \<Rightarrow>
     (case getChargebeeWebhookEndpoints_fetch chargebeeApiKey chargebeeSite remote of
        (t, existingEndpoints) \<Rightarrow>
     (case find (\<lambda>endpoint. ep_name endpoint = ''Hookdeck Webhook Endpoint'')
             existingEndpoints of
        Some hookdeckEndpoint \<Rightarrow>
          (case updateChargebeeWebhookEndpoint_fetch chargebeeApiKey chargebeeSite
                  (ep_id hookdeckEndpoint) hookdeckSourceUrl webhookUsername webhookPassword
                  remote of
             (t', r) \<Rightarrow> (t @ t', r))
      | None \<Rightarrow>
          (case createChargebeeWebhookEndpoint_fetch chargebeeApiKey chargebeeSite
                  hookdeckSourceUrl webhookUsername webhookPassword remote of
             (t', r) \<Rightarrow> (t @ t', r))))))))"

subsection \<open>Billing functions, later revision (Chargebee SDK)\<close>

text \<open>
  \<^verbatim>\<open>result.list.map(...)\<close> throws inside the \<^verbatim>\<open>try\<close> when \<^verbatim>\<open>list\<close> is absent, and
  the \<^verbatim>\<open>catch\<close> returns the empty array.
\<close>

definition getChargebeeWebhookEndpoints_sdk ::
  "remote \<Rightarrow> call list \<times> ChargebeeWebhookEndpoint list" where
  "getChargebeeWebhookEndpoints_sdk remote =
     ([SdkListEndpoints],
      case remote SdkListEndpoints of
        Inl err \<Rightarrow> []
      | Inr result \<Rightarrow>
          (case reply_list result of
             None \<Rightarrow> []
           | Some items \<Rightarrow> map webhook_endpoint items))"

definition updateChargebeeWebhookEndpoint_sdk ::
  "string \<Rightarrow> string \<Rightarrow> string \<Rightarrow> string \<Rightarrow> remote \<Rightarrow> call list \<times> (error + unit)" where
  "updateChargebeeWebhookEndpoint_sdk endpointId webhookUrl username password remote =
     (let params = JObject
             [(''url'', JString webhookUrl),
              (''api_version'', JString ''v2''),
              (''basic_auth_username'', JString username),
              (''basic_auth_password'', JString password),
              (''enabled_events'', JArray (map JString ALL_WEBHOOK_EVENTS))]
      in ([SdkUpdateEndpoint endpointId params],
          case remote (SdkUpdateEndpoint endpointId params) of
            Inl msg \<Rightarrow> Inl (RequestFailed msg)
          | Inr _ \<Rightarrow> Inr ()))"

definition createChargebeeWebhookEndpoint_sdk ::
  "string \<Rightarrow> string \<Rightarrow> string \<Rightarrow> remote \<Rightarrow> call list \<times> (error + unit)" where
  "createChargebeeWebhookEndpoint_sdk webhookUrl username password remote =
     (let params = JObject
             [(''name'', JString ''Hookdeck Webhook Endpoint''),
              (''url'', JString webhookUrl),
              (''api_version'', JString ''v2''),
              (''basic_auth_username'', JString username),
              (''basic_auth_password'', JString password),
              (''enabled_events'', JArray (map JString ALL_WEBHOOK_EVENTS))]
      in ([SdkCreateEndpoint params],
          case remote (SdkCreateEndpoint params) of
            Inl msg \<Rightarrow> Inl (RequestFailed msg)
          | Inr _ \<Rightarrow> Inr ()))"

definition setupChargebeeWebhook_sdk ::
  "Mode \<Rightarrow> string \<Rightarrow> env \<Rightarrow> remote \<Rightarrow> call list \<times> (error + unit)" where
  "setupChargebeeWebhook_sdk mode hookdeckSourceUrl env remote =
     (case getEnvVar env ''CHARGEBEE_WEBHOOK_USERNAME'' of
        Inl e \<Rightarrow> ([], Inl e)
      | Inr webhookUsername \<Rightarrow>
     (case getEnvVar env ''CHARGEBEE_WEBHOOK_PASSWORD'' of
        Inl e \<Rightarrow> ([], Inl e)
      | Inr webhookPassword \<Rightarrow>
     (case getChargebeeWebhookEndpoints_sdk remote of
        (t, existingEndpoints) \<Rightarrow>
     (case find (\<lambda>endpoint. ep_name endpoint = ''Hookdeck Webhook Endpoint'')
             existingEndpoints of
        Some hookdeckEndpoint \<Rightarrow>
          (case updateChargebeeWebhookEndpoint_sdk (ep_id hookdeckEndpoint)
                  hookdeckSourceUrl webhookUsername webhookPassword remote of
             (t', r) \<Rightarrow> (t @ t', r))
      | None \<Rightarrow>
          (case createChargebeeWebhookEndpoint_sdk hookdeckSourceUrl webhookUsername
                  webhookPassword remote of
             (t', r) \<Rightarrow> (t @ t', r))))))"

subsection \<open>The command line\<close>

text \<open>
  \<^verbatim>\<open>String.prototype.toLowerCase\<close> on the letters that matter here: an ASCII capital
  becomes its small letter. Every other character is left as it is; none of them
  lower-cases to a letter of \<^verbatim>\<open>dev\<close> or \<^verbatim>\<open>prod\<close>.
\<close>

definition toLowerCase :: "string \<Rightarrow> string" where
  "toLowerCase s =
     map (\<lambda>c. if 65 \<le> (of_char c :: nat) \<and> (of_char c :: nat) \<le> 90
               then char_of (of_char c + (32 :: nat)) else c) s"

text \<open>What the process writes with \<^verbatim>\<open>console.error\<close>, and how it ends.\<close>

datatype message =
    ModeRequired
  | Usage
  | InvalidMode
  | SetupError error
  | Uncaught error

record outcome =
  calls :: "call list"
  stderr :: "message list"
  exit_code :: int

text \<open>\<^verbatim>\<open>mode as Mode\<close>, after the check that the string is one of the two.\<close>

definition as_Mode :: "string \<Rightarrow> Mode" where
  "as_Mode mode = (if mode = ''dev'' then Dev else Prod)"

text \<open>
  \<^verbatim>\<open>main\<close>: \<^verbatim>\<open>argv\<close> is \<^verbatim>\<open>process.argv\<close>, whose first two entries are the
  interpreter and the script. \<^verbatim>\<open>process.exit(1)\<close> ends the process at once.
\<close>

definition main_fetch :: "env \<Rightarrow> string list \<Rightarrow> remote \<Rightarrow> outcome" where
  "main_fetch env argv remote =
     (let args = drop 2 argv in
      if length args = 0
      then \<lparr>calls = [], stderr = [ModeRequired, Usage], exit_code = 1\<rparr>
      else
        let mode = toLowerCase (hd args) in
        if mode \<noteq> ''dev'' \<and> mode \<noteq> ''prod''
        then \<lparr>calls = [], stderr = [InvalidMode], exit_code = 1\<rparr>
        else
          (case setupHookdeckConnections_fetch (as_Mode mode) env remote of
             (t, Inl e) \<Rightarrow> \<lparr>calls = t, stderr = [SetupError e], exit_code = 1\<rparr>
           | (t, Inr hookdeckSourceUrl) \<Rightarrow>
               (case setupChargebeeWebhook_fetch (as_Mode mode) hookdeckSourceUrl env remote of
                  (t', Inl e) \<Rightarrow>
                    \<lparr>calls = t @ t', stderr = [SetupError e], exit_code = 1\<rparr>
                | (t', Inr _) \<Rightarrow> \<lparr>calls = t @ t', stderr = [], exit_code = 0\<rparr>)))"

definition main_sdk :: "env \<Rightarrow> string list \<Rightarrow> remote \<Rightarrow> outcome" where
  "main_sdk env argv remote =
     (let args = drop 2 argv in
      if length args = 0
      then \<lparr>calls = [], stderr = [ModeRequired, Usage], exit_code = 1\<rparr>
      else
        let mode = toLowerCase (hd args) in
        if mode \<noteq> ''dev'' \<and> mode \<noteq> ''prod''
        then \<lparr>calls = [], stderr = [InvalidMode], exit_code = 1\<rparr>
        else
          (case setupHookdeckConnections_sdk (as_Mode mode) env remote of
             (t, Inl e) \<Rightarrow> \<lparr>calls = t, stderr = [SetupError e], exit_code = 1\<rparr>
           | (t, Inr hookdeckSourceUrl) \<Rightarrow>
               (case setupChargebeeWebhook_sdk (as_Mode mode) hookdeckSourceUrl env remote of
                  (t', Inl e) \<Rightarrow>
                    \<lparr>calls = t @ t', stderr = [SetupError e], exit_code = 1\<rparr>
                | (t', Inr _) \<Rightarrow> \<lparr>calls = t @ t', stderr = [], exit_code = 0\<rparr>)))"

text \<open>
  The whole script. The earlier revision runs \<^verbatim>\<open>main\<close>. The later revision first
  configures the SDK at module level, reading \<^verbatim>\<open>CHARGEBEE_SITE\<close> and then
  \<^verbatim>\<open>CHARGEBEE_API_KEY\<close>; an exception there is uncaught and ends the process with
  status 1 before \<^verbatim>\<open>main\<close> is called.
\<close>

definition script_fetch :: "env \<Rightarrow> string list \<Rightarrow> remote \<Rightarrow> outcome" where
  "script_fetch env argv remote = main_fetch env argv remote"

definition script_sdk :: "env \<Rightarrow> string list \<Rightarrow> remote \<Rightarrow> outcome" where
  "script_sdk env argv remote =
     (case getEnvVar env ''CHARGEBEE_SITE'' of
        Inl e \<Rightarrow> \<lparr>calls = [], stderr = [Uncaught e], exit_code = 1\<rparr>
      | Inr site \<Rightarrow>
     (case getEnvVar env ''CHARGEBEE_API_KEY'' of
        Inl e \<Rightarrow> \<lparr>calls = [], stderr = [Uncaught e], exit_code = 1\<rparr>
      | Inr api_key \<Rightarrow> main_sdk env argv remote))"

subsection \<open>Reading a run\<close>

text \<open>
  What a request is, without its payload: the Source upsert, the upsert of the Connection
  of a given name, the listing of the billing endpoints, the update of the endpoint of a
  given id, the creation of an endpoint.
\<close>

datatype call_kind =
    SourceUpsert
  | ConnectionUpsert string
  | EndpointList
  | EndpointUpdate string
  | EndpointCreate

fun kind :: "call \<Rightarrow> call_kind" where
  "kind (PutSource apiKey source) = SourceUpsert"
| "kind (PutConnection apiKey connection) = ConnectionUpsert (conn_name connection)"
| "kind (GetEndpoints apiKey siteName) = EndpointList"
| "kind (PostUpdateEndpoint apiKey siteName endpointId body) = EndpointUpdate endpointId"
| "kind (PostCreateEndpoint apiKey siteName body) = EndpointCreate"
| "kind SdkListEndpoints = EndpointList"
| "kind (SdkUpdateEndpoint endpointId params) = EndpointUpdate endpointId"
| "kind (SdkCreateEndpoint params) = EndpointCreate"

text \<open>The object a billing create or update request carries.\<close>

fun write_body :: "call \<Rightarrow> json option" where
  "write_body (PostUpdateEndpoint apiKey siteName endpointId body) = Some body"
| "write_body (PostCreateEndpoint apiKey siteName body) = Some body"
| "write_body (SdkUpdateEndpoint endpointId params) = Some params"
| "write_body (SdkCreateEndpoint params) = Some params"
| "write_body c = None"

subsection \<open>Concrete environments and remote behaviours\<close>

definition env_dev :: env where
  "env_dev =
     [''HOOKDECK_API_KEY'' \<mapsto> ''hk_key'',
      ''CHARGEBEE_WEBHOOK_USERNAME'' \<mapsto> ''hook_user'',
      ''CHARGEBEE_WEBHOOK_PASSWORD'' \<mapsto> ''hook_pass'',
      ''CHARGEBEE_API_KEY'' \<mapsto> ''cb_key'',
      ''CHARGEBEE_SITE'' \<mapsto> ''acme-test'']"

definition env_prod :: env where
  "env_prod = env_dev(''PROD_DESTINATION_URL'' \<mapsto> ''https://app.example'')"

text \<open>Every request succeeds; no billing endpoint exists yet.\<close>

definition remote_ok :: remote where
  "remote_ok c =
     Inr \<lparr>reply_id = Some ''src_1'', reply_url = Some ''https://hkdk.example/abc'',
          reply_list = Some []\<rparr>"

text \<open>Every request succeeds; the second listed endpoint has the well-known name.\<close>

definition remote_existing :: remote where
  "remote_existing c =
     Inr \<lparr>reply_id = Some ''src_1'', reply_url = Some ''https://hkdk.example/abc'',
          reply_list = Some
            [\<lparr>webhook_endpoint = \<lparr>ep_id = ''ep_0'', ep_name = ''Other endpoint''\<rparr>\<rparr>,
             \<lparr>webhook_endpoint =
                \<lparr>ep_id = ''ep_1'', ep_name = ''Hookdeck Webhook Endpoint''\<rparr>\<rparr>]\<rparr>"

text \<open>Every request succeeds, and no reply has a \<^verbatim>\<open>url\<close>.\<close>

definition remote_no_url :: remote where
  "remote_no_url c = Inr \<lparr>reply_id = Some ''src_1'', reply_url = None, reply_list = None\<rparr>"

text \<open>The listing of the billing endpoints fails; every other request succeeds.\<close>

definition remote_list_down :: remote where
  "remote_list_down c =
     (if kind c = EndpointList then Inl ''HTTP 503'' else remote_existing c)"

text \<open>The creation of a billing endpoint fails; every other request succeeds.\<close>

definition remote_create_down :: remote where
  "remote_create_down c =
     (if kind c = EndpointCreate then Inl ''HTTP 400'' else remote_ok c)"

section \<open>Properties\<close>

subsection \<open>Helper lemmas\<close>

lemma getEnvVar_Inl_iff:
  "getEnvVar env name = Inl e \<longleftrightarrow> falsy (env name) \<and> e = MissingEnvVar name"
  by (auto simp: getEnvVar_def falsy_def split: option.splits)

lemma connections_rules:
  assumes "connections startsWithKey mode env sid = Inr cs"
  shows "map conn_rules cs =
     [[\<lparr>rule_type = ''filter'', rule_body_field = ''event_type'',
        rule_body_operator = startsWithKey, rule_body_operand = ''customer_''\<rparr>],
      [\<lparr>rule_type = ''filter'', rule_body_field = ''event_type'',
        rule_body_operator = startsWithKey, rule_body_operand = ''subscription_''\<rparr>],
      [\<lparr>rule_type = ''filter'', rule_body_field = ''event_type'',
        rule_body_operator = ''$eq'', rule_body_operand = ''payment_succeeded''\<rparr>]]"
  using assms by (auto simp: connections_def split: sum.splits)

lemma events_all:
  "list_all (\<lambda>ev.
       (prefix ''customer_'' ev \<and> \<not> prefix ''subscription_'' ev \<and> ev \<noteq> ''payment_succeeded'')
     \<or> (\<not> prefix ''customer_'' ev \<and> prefix ''subscription_'' ev \<and> ev \<noteq> ''payment_succeeded'')
     \<or> (\<not> prefix ''customer_'' ev \<and> \<not> prefix ''subscription_'' ev \<and> ev = ''payment_succeeded''))
     ALL_WEBHOOK_EVENTS"
  by (simp add: ALL_WEBHOOK_EVENTS_def)

lemma events_exactly_one:
  assumes "ev \<in> set ALL_WEBHOOK_EVENTS"
  shows "(prefix ''customer_'' ev \<and> \<not> prefix ''subscription_'' ev \<and> ev \<noteq> ''payment_succeeded'')
     \<or> (\<not> prefix ''customer_'' ev \<and> prefix ''subscription_'' ev \<and> ev \<noteq> ''payment_succeeded'')
     \<or> (\<not> prefix ''customer_'' ev \<and> \<not> prefix ''subscription_'' ev \<and> ev = ''payment_succeeded'')"
  using assms events_all unfolding list_all_iff by blast

subsection \<open>C1: the filters partition the subscribed events\<close>

text \<open>
  C1. The three Connections, in either revision, are matched by an event type string as
  follows: the customer Connection iff the string starts with \<^verbatim>\<open>customer_\<close>, the
  subscription Connection iff it starts with \<^verbatim>\<open>subscription_\<close>, the payment Connection
  iff it equals \<^verbatim>\<open>payment_succeeded\<close>; and every event type of the fixed list
  \<^verbatim>\<open>ALL_WEBHOOK_EVENTS\<close> is matched by exactly one of the three.
\<close>

theorem filter_partition:
  assumes key: "startsWithKey = ''$starts_with'' \<or> startsWithKey = ''$startsWith''"
      and cs: "connections startsWithKey mode env sid = Inr cs"
  shows "map (\<lambda>c. connection_matches c s) cs
           = [prefix ''customer_'' s, prefix ''subscription_'' s, s = ''payment_succeeded'']
       \<and> (ev \<in> set ALL_WEBHOOK_EVENTS \<longrightarrow>
             length (filter (\<lambda>c. connection_matches c ev) cs) = 1)"
proof -
  from cs obtain c1 c2 c3 where cs_eq: "cs = [c1, c2, c3]"
    by (auto simp: connections_def split: sum.splits)
  from connections_rules [OF cs] cs_eq
  have r1: "conn_rules c1 = [\<lparr>rule_type = ''filter'', rule_body_field = ''event_type'',
        rule_body_operator = startsWithKey, rule_body_operand = ''customer_''\<rparr>]"
   and r2: "conn_rules c2 = [\<lparr>rule_type = ''filter'', rule_body_field = ''event_type'',
        rule_body_operator = startsWithKey, rule_body_operand = ''subscription_''\<rparr>]"
   and r3: "conn_rules c3 = [\<lparr>rule_type = ''filter'', rule_body_field = ''event_type'',
        rule_body_operator = ''$eq'', rule_body_operand = ''payment_succeeded''\<rparr>]"
    by simp_all
  have m1: "connection_matches c1 x \<longleftrightarrow> prefix ''customer_'' x" for x
    using key by (auto simp: connection_matches_def rule_matches_def r1)
  have m2: "connection_matches c2 x \<longleftrightarrow> prefix ''subscription_'' x" for x
    using key by (auto simp: connection_matches_def rule_matches_def r2)
  have m3: "connection_matches c3 x \<longleftrightarrow> x = ''payment_succeeded''" for x
    by (simp add: connection_matches_def rule_matches_def r3)
  have "length (filter (\<lambda>c. connection_matches c ev) cs) = 1"
    if "ev \<in> set ALL_WEBHOOK_EVENTS"
    using events_exactly_one [OF that] by (auto simp: cs_eq m1 m2 m3)
  then show ?thesis
    by (simp add: cs_eq m1 m2 m3)
qed

theorem filter_partition_witness:
  "(''$startsWith'' = ''$starts_with'' \<or> ''$startsWith'' = ''$startsWith'')
   \<and> isl (connections ''$startsWith'' Dev env_dev (Some ''src_1'')) = False
   \<and> ''subscription_renewed'' \<in> set ALL_WEBHOOK_EVENTS
   \<and> map (\<lambda>c. connection_matches c ''subscription_renewed'')
         (projr (connections ''$startsWith'' Dev env_dev (Some ''src_1'')))
       = [False, True, False]
   \<and> length (filter (\<lambda>c. connection_matches c ''subscription_renewed'')
         (projr (connections ''$startsWith'' Dev env_dev (Some ''src_1'')))) = 1"
proof -
  have c: "connections ''$startsWith'' Dev env_dev (Some ''src_1'')
        = Inr (projr (connections ''$startsWith'' Dev env_dev (Some ''src_1'')))"
    by (simp add: connections_def createDestination_def)
  have c': "isl (connections ''$startsWith'' Dev env_dev (Some ''src_1'')) = False"
    by (simp add: connections_def createDestination_def)
  have ev: "''subscription_renewed'' \<in> set ALL_WEBHOOK_EVENTS"
    by (simp add: ALL_WEBHOOK_EVENTS_def)
  show ?thesis
    using filter_partition [OF _ c, of "''subscription_renewed''" "''subscription_renewed''"] ev c'
    by simp
qed

subsection \<open>C10: an empty variable is a missing variable\<close>

text \<open>
  C10. For every variable name, the lookup helper throws the same missing-variable error
  when the variable is set to the empty string and when it is unset, and returns every
  non-empty value unchanged.
\<close>

theorem getEnvVar_empty_as_unset:
  "(env name = None \<longrightarrow> getEnvVar env name = Inl (MissingEnvVar name))
   \<and> (env name = Some [] \<longrightarrow> getEnvVar env name = Inl (MissingEnvVar name))
   \<and> (env name = Some v \<and> v \<noteq> [] \<longrightarrow> getEnvVar env name = Inr v)"
  by (simp add: getEnvVar_def)

theorem getEnvVar_empty_as_unset_witness:
  "env_dev ''PROD_DESTINATION_URL'' = None
   \<and> getEnvVar env_dev ''PROD_DESTINATION_URL'' = Inl (MissingEnvVar ''PROD_DESTINATION_URL'')
   \<and> (env_dev(''CHARGEBEE_SITE'' \<mapsto> [])) ''CHARGEBEE_SITE'' = Some []
   \<and> getEnvVar (env_dev(''CHARGEBEE_SITE'' \<mapsto> [])) ''CHARGEBEE_SITE''
       = Inl (MissingEnvVar ''CHARGEBEE_SITE'')
   \<and> env_dev ''HOOKDECK_API_KEY'' = Some ''hk_key'' \<and> ''hk_key'' \<noteq> []
   \<and> getEnvVar env_dev ''HOOKDECK_API_KEY'' = Inr ''hk_key''"
proof -
  have h1: "env_dev ''PROD_DESTINATION_URL'' = None"
    by (simp add: env_dev_def)
  have h2: "(env_dev(''CHARGEBEE_SITE'' \<mapsto> [])) ''CHARGEBEE_SITE'' = Some []"
    by simp
  have h3: "env_dev ''HOOKDECK_API_KEY'' = Some ''hk_key'' \<and> ''hk_key'' \<noteq> []"
    by (simp add: env_dev_def)
  note T1 = getEnvVar_empty_as_unset
    [of env_dev "''PROD_DESTINATION_URL''", THEN conjunct1, THEN mp, OF h1]
  note T2 = getEnvVar_empty_as_unset
    [of "env_dev(''CHARGEBEE_SITE'' \<mapsto> [])" "''CHARGEBEE_SITE''",
     THEN conjunct2, THEN conjunct1, THEN mp, OF h2]
  note T3 = getEnvVar_empty_as_unset
    [of env_dev "''HOOKDECK_API_KEY''" "''hk_key''",
     THEN conjunct2, THEN conjunct2, THEN mp, OF h3]
  show ?thesis
    by (intro conjI h1 T1 h2 T2 h3 [THEN conjunct1] h3 [THEN conjunct2] T3)
qed

subsection \<open>C5: the destination follows the mode\<close>

text \<open>
  C5. In dev mode each of the three Connection destination descriptors has type
  \<^verbatim>\<open>CLI\<close> and a config with the role's fixed path and no url; in prod mode, with the
  base destination URL configured, each has type \<^verbatim>\<open>HTTP\<close> and a config with the url
  made of the base URL followed by the same fixed path, and no path. All three
  descriptors of a run have the same variant.
\<close>

theorem mode_correct_destination:
  "map_sum id (map conn_destination) (connections startsWithKey Dev env sid) =
     Inr [\<lparr>dst_name = ''chargebee-customer-handler'', dst_type = ''CLI'',
           dst_config_path = Some ''/webhooks/chargebee/customer'', dst_config_url = None\<rparr>,
          \<lparr>dst_name = ''chargebee-subscription-handler'', dst_type = ''CLI'',
           dst_config_path = Some ''/webhooks/chargebee/subscription'', dst_config_url = None\<rparr>,
          \<lparr>dst_name = ''chargebee-payment-handler'', dst_type = ''CLI'',
           dst_config_path = Some ''/webhooks/chargebee/payments'', dst_config_url = None\<rparr>]
   \<and> (getEnvVar env ''PROD_DESTINATION_URL'' = Inr base \<longrightarrow>
        map_sum id (map conn_destination) (connections startsWithKey Prod env sid) =
          Inr [\<lparr>dst_name = ''chargebee-customer-handler'', dst_type = ''HTTP'',
                dst_config_path = None,
                dst_config_url = Some (base @ ''/webhooks/chargebee/customer'')\<rparr>,
               \<lparr>dst_name = ''chargebee-subscription-handler'', dst_type = ''HTTP'',
                dst_config_path = None,
                dst_config_url = Some (base @ ''/webhooks/chargebee/subscription'')\<rparr>,
               \<lparr>dst_name = ''chargebee-payment-handler'', dst_type = ''HTTP'',
                dst_config_path = None,
                dst_config_url = Some (base @ ''/webhooks/chargebee/payments'')\<rparr>])"
  by (simp add: connections_def createDestination_def PROJECT_DESTINATION_NAMES_def)

theorem mode_correct_destination_witness:
  "getEnvVar env_prod ''PROD_DESTINATION_URL'' = Inr ''https://app.example''
   \<and> map_sum id (map conn_destination)
         (connections ''$startsWith'' Prod env_prod (Some ''src_1'')) =
       Inr [\<lparr>dst_name = ''chargebee-customer-handler'', dst_type = ''HTTP'',
             dst_config_path = None,
             dst_config_url = Some ''https://app.example/webhooks/chargebee/customer''\<rparr>,
            \<lparr>dst_name = ''chargebee-subscription-handler'', dst_type = ''HTTP'',
             dst_config_path = None,
             dst_config_url = Some ''https://app.example/webhooks/chargebee/subscription''\<rparr>,
            \<lparr>dst_name = ''chargebee-payment-handler'', dst_type = ''HTTP'',
             dst_config_path = None,
             dst_config_url = Some ''https://app.example/webhooks/chargebee/payments''\<rparr>]"
proof -
  have h: "getEnvVar env_prod ''PROD_DESTINATION_URL'' = Inr ''https://app.example''"
    by (simp add: getEnvVar_def env_prod_def)
  show ?thesis
    using mode_correct_destination
      [of "''$startsWith''" env_prod "Some ''src_1''" "''https://app.example''"] h
    by simp
qed

subsection \<open>The requests of a run\<close>

lemma upsert_each_prefix:
  "prefix (fst (upsert_each apiKey cs remote)) (map (PutConnection apiKey) cs)"
  by (induction cs) (auto simp: upsertHookdeckConnection_def split: sum.splits prod.splits)

lemma upsert_each_ok:
  "snd (upsert_each apiKey cs remote) = Inr u \<Longrightarrow>
   fst (upsert_each apiKey cs remote) = map (PutConnection apiKey) cs"
  by (induction cs) (auto simp: upsertHookdeckConnection_def split: sum.splits prod.splits)

lemma kind_PutConnection:
  assumes "connections key mode env sid = Inr cs"
  shows "map (kind \<circ> PutConnection apiKey) cs =
     [ConnectionUpsert ''chargebee-customer'',
      ConnectionUpsert ''chargebee-subscription'', ConnectionUpsert ''chargebee-payment'']"
  using assms
  by (auto simp: connections_def PROJECT_CONNECTION_NAMES_def split: sum.splits)

lemma upsert_connections_kinds:
  assumes "connections key mode env sid = Inr cs" "upsert_each apiKey cs remote = (t, r)"
  shows "prefix (map kind t)
            [ConnectionUpsert ''chargebee-customer'',
             ConnectionUpsert ''chargebee-subscription'', ConnectionUpsert ''chargebee-payment'']"
  using map_mono_prefix [OF upsert_each_prefix, of kind apiKey cs remote] assms(2)
  by (simp add: kind_PutConnection [OF assms(1)])

lemma upsert_connections_ok:
  assumes "connections key mode env sid = Inr cs" "upsert_each apiKey cs remote = (t, Inr u)"
  shows "map kind t =
            [ConnectionUpsert ''chargebee-customer'',
             ConnectionUpsert ''chargebee-subscription'', ConnectionUpsert ''chargebee-payment'']"
  using upsert_each_ok [of apiKey cs remote u] assms(2)
  by (simp add: kind_PutConnection [OF assms(1)])

lemma setupHookdeckConnections_kinds:
  "prefix (map kind (fst (setupHookdeckConnections key mode env remote)))
     [SourceUpsert, ConnectionUpsert ''chargebee-customer'',
      ConnectionUpsert ''chargebee-subscription'', ConnectionUpsert ''chargebee-payment'']"
  by (auto simp: setupHookdeckConnections_def upsertHookdeckSource_def
           split: sum.splits option.splits prod.splits
           intro: upsert_connections_kinds)

lemma setupHookdeckConnections_ok:
  assumes "snd (setupHookdeckConnections key mode env remote) = Inr url"
  shows "map kind (fst (setupHookdeckConnections key mode env remote)) =
     [SourceUpsert, ConnectionUpsert ''chargebee-customer'',
      ConnectionUpsert ''chargebee-subscription'', ConnectionUpsert ''chargebee-payment'']"
  using assms
  by (auto simp: setupHookdeckConnections_def upsertHookdeckSource_def
           split: sum.splits option.splits prod.splits if_splits
           intro: upsert_connections_ok)

lemma setupChargebeeWebhook_fetch_kinds:
  "map kind (fst (setupChargebeeWebhook_fetch mode url env remote)) = []
   \<or> map kind (fst (setupChargebeeWebhook_fetch mode url env remote)) = [EndpointList, EndpointCreate]
   \<or> (\<exists>i. map kind (fst (setupChargebeeWebhook_fetch mode url env remote)) = [EndpointList, EndpointUpdate i])"
  by (auto simp: setupChargebeeWebhook_fetch_def getChargebeeWebhookEndpoints_fetch_def
        updateChargebeeWebhookEndpoint_fetch_def createChargebeeWebhookEndpoint_fetch_def Let_def
      split: sum.splits option.splits prod.splits)

lemma setupChargebeeWebhook_sdk_kinds:
  "map kind (fst (setupChargebeeWebhook_sdk mode url env remote)) = []
   \<or> map kind (fst (setupChargebeeWebhook_sdk mode url env remote)) = [EndpointList, EndpointCreate]
   \<or> (\<exists>i. map kind (fst (setupChargebeeWebhook_sdk mode url env remote)) = [EndpointList, EndpointUpdate i])"
  by (auto simp: setupChargebeeWebhook_sdk_def getChargebeeWebhookEndpoints_sdk_def
        updateChargebeeWebhookEndpoint_sdk_def createChargebeeWebhookEndpoint_sdk_def Let_def
      split: sum.splits option.splits prod.splits)

lemma setupChargebeeWebhook_fetch_ok:
  assumes "snd (setupChargebeeWebhook_fetch mode url env remote) = Inr u"
  shows "length (fst (setupChargebeeWebhook_fetch mode url env remote)) = 2"
  using assms
  by (auto simp: setupChargebeeWebhook_fetch_def getChargebeeWebhookEndpoints_fetch_def
        updateChargebeeWebhookEndpoint_fetch_def createChargebeeWebhookEndpoint_fetch_def Let_def
      split: sum.splits option.splits prod.splits)

lemma setupChargebeeWebhook_sdk_ok:
  assumes "snd (setupChargebeeWebhook_sdk mode url env remote) = Inr u"
  shows "length (fst (setupChargebeeWebhook_sdk mode url env remote)) = 2"
  using assms
  by (auto simp: setupChargebeeWebhook_sdk_def getChargebeeWebhookEndpoints_sdk_def
        updateChargebeeWebhookEndpoint_sdk_def createChargebeeWebhookEndpoint_sdk_def Let_def
      split: sum.splits option.splits prod.splits)

text \<open>The shape of a run of \<^verbatim>\<open>main\<close>.\<close>

lemma main_fetch_cases:
  obtains
    (rejected) "calls (main_fetch env argv remote) = []" "exit_code (main_fetch env argv remote) = 1"
      "stderr (main_fetch env argv remote) = [ModeRequired, Usage] \<or> stderr (main_fetch env argv remote) = [InvalidMode]"
  | (gateway) mode e where
      "drop 2 argv \<noteq> []" "mode = as_Mode (toLowerCase (hd (drop 2 argv)))"
      "toLowerCase (hd (drop 2 argv)) = ''dev'' \<or> toLowerCase (hd (drop 2 argv)) = ''prod''"
      "snd (setupHookdeckConnections_fetch mode env remote) = Inl e"
      "main_fetch env argv remote =
         \<lparr>calls = fst (setupHookdeckConnections_fetch mode env remote),
          stderr = [SetupError e], exit_code = 1\<rparr>"
  | (billing_failed) mode sourceUrl e where
      "drop 2 argv \<noteq> []" "mode = as_Mode (toLowerCase (hd (drop 2 argv)))"
      "toLowerCase (hd (drop 2 argv)) = ''dev'' \<or> toLowerCase (hd (drop 2 argv)) = ''prod''"
      "snd (setupHookdeckConnections_fetch mode env remote) = Inr sourceUrl"
      "snd (setupChargebeeWebhook_fetch mode sourceUrl env remote) = Inl e"
      "main_fetch env argv remote =
         \<lparr>calls = fst (setupHookdeckConnections_fetch mode env remote)
                  @ fst (setupChargebeeWebhook_fetch mode sourceUrl env remote),
          stderr = [SetupError e], exit_code = 1\<rparr>"
  | (completed) mode sourceUrl where
      "drop 2 argv \<noteq> []" "mode = as_Mode (toLowerCase (hd (drop 2 argv)))"
      "toLowerCase (hd (drop 2 argv)) = ''dev'' \<or> toLowerCase (hd (drop 2 argv)) = ''prod''"
      "snd (setupHookdeckConnections_fetch mode env remote) = Inr sourceUrl"
      "snd (setupChargebeeWebhook_fetch mode sourceUrl env remote) = Inr ()"
      "main_fetch env argv remote =
         \<lparr>calls = fst (setupHookdeckConnections_fetch mode env remote)
                  @ fst (setupChargebeeWebhook_fetch mode sourceUrl env remote),
          stderr = [], exit_code = 0\<rparr>"
proof (cases "length (drop 2 argv) = 0 \<or>
    (toLowerCase (hd (drop 2 argv)) \<noteq> ''dev'' \<and> toLowerCase (hd (drop 2 argv)) \<noteq> ''prod'')")
  case True
  then show ?thesis
    by (intro rejected) (auto simp: main_fetch_def Let_def)
next
  case False
  define mode where "mode = as_Mode (toLowerCase (hd (drop 2 argv)))"
  obtain t r where S: "setupHookdeckConnections_fetch mode env remote = (t, r)"
    by (cases "setupHookdeckConnections_fetch mode env remote")
  show ?thesis
  proof (cases r)
    case (Inl e)
    with False S show ?thesis
      by (intro gateway [of mode e]) (auto simp: main_fetch_def Let_def mode_def)
  next
    case (Inr sourceUrl)
    obtain t' r' where B: "setupChargebeeWebhook_fetch mode sourceUrl env remote = (t', r')"
      by (cases "setupChargebeeWebhook_fetch mode sourceUrl env remote")
    show ?thesis
    proof (cases r')
      case (Inl e)
      with False S B Inr show ?thesis
        by (intro billing_failed [of mode sourceUrl e]) (auto simp: main_fetch_def Let_def mode_def)
    next
      case r': (Inr u)
      with False S B Inr show ?thesis
        by (intro completed [of mode sourceUrl]) (auto simp: main_fetch_def Let_def mode_def)
    qed
  qed
qed

lemma main_sdk_cases:
  obtains
    (rejected) "calls (main_sdk env argv remote) = []" "exit_code (main_sdk env argv remote) = 1"
      "stderr (main_sdk env argv remote) = [ModeRequired, Usage] \<or> stderr (main_sdk env argv remote) = [InvalidMode]"
  | (gateway) mode e where
      "drop 2 argv \<noteq> []" "mode = as_Mode (toLowerCase (hd (drop 2 argv)))"
      "toLowerCase (hd (drop 2 argv)) = ''dev'' \<or> toLowerCase (hd (drop 2 argv)) = ''prod''"
      "snd (setupHookdeckConnections_sdk mode env remote) = Inl e"
      "main_sdk env argv remote =
         \<lparr>calls = fst (setupHookdeckConnections_sdk mode env remote),
          stderr = [SetupError e], exit_code = 1\<rparr>"
  | (billing_failed) mode sourceUrl e where
      "drop 2 argv \<noteq> []" "mode = as_Mode (toLowerCase (hd (drop 2 argv)))"
      "toLowerCase (hd (drop 2 argv)) = ''dev'' \<or> toLowerCase (hd (drop 2 argv)) = ''prod''"
      "snd (setupHookdeckConnections_sdk mode env remote) = Inr sourceUrl"
      "snd (setupChargebeeWebhook_sdk mode sourceUrl env remote) = Inl e"
      "main_sdk env argv remote =
         \<lparr>calls = fst (setupHookdeckConnections_sdk mode env remote)
                  @ fst (setupChargebeeWebhook_sdk mode sourceUrl env remote),
          stderr = [SetupError e], exit_code = 1\<rparr>"
  | (completed) mode sourceUrl where
      "drop 2 argv \<noteq> []" "mode = as_Mode (toLowerCase (hd (drop 2 argv)))"
      "toLowerCase (hd (drop 2 argv)) = ''dev'' \<or> toLowerCase (hd (drop 2 argv)) = ''prod''"
      "snd (setupHookdeckConnections_sdk mode env remote) = Inr sourceUrl"
      "snd (setupChargebeeWebhook_sdk mode sourceUrl env remote) = Inr ()"
      "main_sdk env argv remote =
         \<lparr>calls = fst (setupHookdeckConnections_sdk mode env remote)
                  @ fst (setupChargebeeWebhook_sdk mode sourceUrl env remote),
          stderr = [], exit_code = 0\<rparr>"
proof (cases "length (drop 2 argv) = 0 \<or>
    (toLowerCase (hd (drop 2 argv)) \<noteq> ''dev'' \<and> toLowerCase (hd (drop 2 argv)) \<noteq> ''prod'')")
  case True
  then show ?thesis
    by (intro rejected) (auto simp: main_sdk_def Let_def)
next
  case False
  define mode where "mode = as_Mode (toLowerCase (hd (drop 2 argv)))"
  obtain t r where S: "setupHookdeckConnections_sdk mode env remote = (t, r)"
    by (cases "setupHookdeckConnections_sdk mode env remote")
  show ?thesis
  proof (cases r)
    case (Inl e)
    with False S show ?thesis
      by (intro gateway [of mode e]) (auto simp: main_sdk_def Let_def mode_def)
  next
    case (Inr sourceUrl)
    obtain t' r' where B: "setupChargebeeWebhook_sdk mode sourceUrl env remote = (t', r')"
      by (cases "setupChargebeeWebhook_sdk mode sourceUrl env remote")
    show ?thesis
    proof (cases r')
      case (Inl e)
      with False S B Inr show ?thesis
        by (intro billing_failed [of mode sourceUrl e]) (auto simp: main_sdk_def Let_def mode_def)
    next
      case r': (Inr u)
      with False S B Inr show ?thesis
        by (intro completed [of mode sourceUrl]) (auto simp: main_sdk_def Let_def mode_def)
    qed
  qed
qed

subsection \<open>The order of the requests of \<^verbatim>\<open>main\<close>\<close>

lemma main_fetch_order:
  "(\<exists>w. (w = EndpointCreate \<or> (\<exists>i. w = EndpointUpdate i)) \<and>
      prefix (map kind (calls (main_fetch env argv remote)))
        [SourceUpsert, ConnectionUpsert ''chargebee-customer'',
         ConnectionUpsert ''chargebee-subscription'', ConnectionUpsert ''chargebee-payment'',
         EndpointList, w])
   \<and> (exit_code (main_fetch env argv remote) = 0 \<longrightarrow>
        length (calls (main_fetch env argv remote)) = 6)"
proof (cases rule: main_fetch_cases [of env argv remote])
  case rejected
  then show ?thesis by auto
next
  case (gateway mode e)
  have "prefix (map kind (fst (setupHookdeckConnections_fetch mode env remote)))
     ([SourceUpsert, ConnectionUpsert ''chargebee-customer'',
      ConnectionUpsert ''chargebee-subscription'', ConnectionUpsert ''chargebee-payment'']
      @ [EndpointList, EndpointCreate])"
    unfolding setupHookdeckConnections_fetch_def
    by (rule prefix_prefix [OF setupHookdeckConnections_kinds])
  with gateway(5) show ?thesis by auto
next
  case (billing_failed mode sourceUrl e)
  note g = setupHookdeckConnections_ok
    [OF billing_failed(4) [unfolded setupHookdeckConnections_fetch_def],
     folded setupHookdeckConnections_fetch_def]
  from setupChargebeeWebhook_fetch_kinds [of mode sourceUrl env remote] billing_failed(6) g
  show ?thesis by auto
next
  case (completed mode sourceUrl)
  note g = setupHookdeckConnections_ok
    [OF completed(4) [unfolded setupHookdeckConnections_fetch_def],
     folded setupHookdeckConnections_fetch_def]
  have "length (map kind (fst (setupHookdeckConnections_fetch mode env remote))) = 4"
    unfolding g by simp
  then have l: "length (fst (setupHookdeckConnections_fetch mode env remote)) = 4"
    by simp
  from setupChargebeeWebhook_fetch_kinds [of mode sourceUrl env remote]
    setupChargebeeWebhook_fetch_ok [OF completed(5)] completed(6) g l
  show ?thesis by auto
qed

lemma main_sdk_order:
  "(\<exists>w. (w = EndpointCreate \<or> (\<exists>i. w = EndpointUpdate i)) \<and>
      prefix (map kind (calls (main_sdk env argv remote)))
        [SourceUpsert, ConnectionUpsert ''chargebee-customer'',
         ConnectionUpsert ''chargebee-subscription'', ConnectionUpsert ''chargebee-payment'',
         EndpointList, w])
   \<and> (exit_code (main_sdk env argv remote) = 0 \<longrightarrow>
        length (calls (main_sdk env argv remote)) = 6)"
proof (cases rule: main_sdk_cases [of env argv remote])
  case rejected
  then show ?thesis by auto
next
  case (gateway mode e)
  have "prefix (map kind (fst (setupHookdeckConnections_sdk mode env remote)))
     ([SourceUpsert, ConnectionUpsert ''chargebee-customer'',
      ConnectionUpsert ''chargebee-subscription'', ConnectionUpsert ''chargebee-payment'']
      @ [EndpointList, EndpointCreate])"
    unfolding setupHookdeckConnections_sdk_def
    by (rule prefix_prefix [OF setupHookdeckConnections_kinds])
  with gateway(5) show ?thesis by auto
next
  case (billing_failed mode sourceUrl e)
  note g = setupHookdeckConnections_ok
    [OF billing_failed(4) [unfolded setupHookdeckConnections_sdk_def],
     folded setupHookdeckConnections_sdk_def]
  from setupChargebeeWebhook_sdk_kinds [of mode sourceUrl env remote] billing_failed(6) g
  show ?thesis by auto
next
  case (completed mode sourceUrl)
  note g = setupHookdeckConnections_ok
    [OF completed(4) [unfolded setupHookdeckConnections_sdk_def],
     folded setupHookdeckConnections_sdk_def]
  have "length (map kind (fst (setupHookdeckConnections_sdk mode env remote))) = 4"
    unfolding g by simp
  then have l: "length (fst (setupHookdeckConnections_sdk mode env remote)) = 4"
    by simp
  from setupChargebeeWebhook_sdk_kinds [of mode sourceUrl env remote]
    setupChargebeeWebhook_sdk_ok [OF completed(5)] completed(6) g l
  show ?thesis by auto
qed

lemmas run_defs =
  script_fetch_def script_sdk_def main_fetch_def main_sdk_def toLowerCase_def as_Mode_def
  setupHookdeckConnections_fetch_def setupHookdeckConnections_sdk_def
  setupHookdeckConnections_def upsertHookdeckSource_def upsertHookdeckConnection_def
  connections_def createDestination_def getEnvVar_def falsy_def
  setupChargebeeWebhook_fetch_def setupChargebeeWebhook_sdk_def
  getChargebeeWebhookEndpoints_fetch_def getChargebeeWebhookEndpoints_sdk_def
  updateChargebeeWebhookEndpoint_fetch_def updateChargebeeWebhookEndpoint_sdk_def
  createChargebeeWebhookEndpoint_fetch_def createChargebeeWebhookEndpoint_sdk_def
  PROJECT_SOURCE_NAME_def PROJECT_CONNECTION_NAMES_def PROJECT_DESTINATION_NAMES_def
  env_dev_def env_prod_def remote_ok_def remote_existing_def remote_no_url_def
  remote_list_down_def remote_create_down_def Let_def

subsection \<open>C9: the order of the requests\<close>

text \<open>
  C9. In every run of either revision the requests are issued one after the other in the
  fixed order: the Source upsert, the Connection upserts for customer, subscription and
  payment, the listing of the billing endpoints, then one creation or one update of the
  billing endpoint. A run that stops early has issued an initial part of this sequence;
  a run that ends with status 0 has issued all six requests.
\<close>

theorem call_order:
  "(\<exists>w. (w = EndpointCreate \<or> (\<exists>i. w = EndpointUpdate i)) \<and>
      prefix (map kind (calls (script_fetch env argv remote)))
        [SourceUpsert, ConnectionUpsert ''chargebee-customer'',
         ConnectionUpsert ''chargebee-subscription'', ConnectionUpsert ''chargebee-payment'',
         EndpointList, w])
   \<and> (exit_code (script_fetch env argv remote) = 0 \<longrightarrow>
        length (calls (script_fetch env argv remote)) = 6)
   \<and> (\<exists>w. (w = EndpointCreate \<or> (\<exists>i. w = EndpointUpdate i)) \<and>
      prefix (map kind (calls (script_sdk env argv remote)))
        [SourceUpsert, ConnectionUpsert ''chargebee-customer'',
         ConnectionUpsert ''chargebee-subscription'', ConnectionUpsert ''chargebee-payment'',
         EndpointList, w])
   \<and> (exit_code (script_sdk env argv remote) = 0 \<longrightarrow>
        length (calls (script_sdk env argv remote)) = 6)"
proof -
  have "script_sdk env argv remote = main_sdk env argv remote
        \<or> (calls (script_sdk env argv remote) = [] \<and> exit_code (script_sdk env argv remote) = 1)"
    by (auto simp: script_sdk_def split: sum.splits)
  then show ?thesis
    using main_fetch_order [of env argv remote] main_sdk_order [of env argv remote]
    unfolding script_fetch_def by auto
qed

theorem call_order_witness:
  "exit_code (script_fetch env_dev [''node'', ''upsert-connections.ts'', ''dev''] remote_ok) = 0
   \<and> exit_code (script_sdk env_dev [''node'', ''upsert-connections.ts'', ''dev''] remote_existing) = 0
   \<and> length (calls (script_fetch env_dev [''node'', ''upsert-connections.ts'', ''dev''] remote_ok)) = 6
   \<and> length (calls (script_sdk env_dev [''node'', ''upsert-connections.ts'', ''dev''] remote_existing)) = 6
   \<and> map kind (calls (script_fetch env_dev [''node'', ''upsert-connections.ts'', ''dev''] remote_ok)) =
       [SourceUpsert, ConnectionUpsert ''chargebee-customer'',
        ConnectionUpsert ''chargebee-subscription'', ConnectionUpsert ''chargebee-payment'',
        EndpointList, EndpointCreate]
   \<and> map kind (calls (script_sdk env_dev [''node'', ''upsert-connections.ts'', ''dev''] remote_existing)) =
       [SourceUpsert, ConnectionUpsert ''chargebee-customer'',
        ConnectionUpsert ''chargebee-subscription'', ConnectionUpsert ''chargebee-payment'',
        EndpointList, EndpointUpdate ''ep_1'']"
proof -
  have a: "exit_code (script_fetch env_dev [''node'', ''upsert-connections.ts'', ''dev''] remote_ok) = 0"
    by (simp add: run_defs)
  have b: "exit_code (script_sdk env_dev [''node'', ''upsert-connections.ts'', ''dev''] remote_existing) = 0"
    by (simp add: run_defs)
  have c: "map kind (calls (script_fetch env_dev [''node'', ''upsert-connections.ts'', ''dev''] remote_ok)) =
       [SourceUpsert, ConnectionUpsert ''chargebee-customer'',
        ConnectionUpsert ''chargebee-subscription'', ConnectionUpsert ''chargebee-payment'',
        EndpointList, EndpointCreate]"
    by (simp add: run_defs)
  have d: "map kind (calls (script_sdk env_dev [''node'', ''upsert-connections.ts'', ''dev''] remote_existing)) =
       [SourceUpsert, ConnectionUpsert ''chargebee-customer'',
        ConnectionUpsert ''chargebee-subscription'', ConnectionUpsert ''chargebee-payment'',
        EndpointList, EndpointUpdate ''ep_1'']"
    by (simp add: run_defs)
  from call_order [of env_dev "[''node'', ''upsert-connections.ts'', ''dev'']" remote_ok]
       call_order [of env_dev "[''node'', ''upsert-connections.ts'', ''dev'']" remote_existing]
       a b c d
  show ?thesis by blast
qed

subsection \<open>The billing step\<close>

lemma kind_update_fetch [simp]:
  "map kind (fst (updateChargebeeWebhookEndpoint_fetch k s i url u p remote)) = [EndpointUpdate i]"
  by (simp add: updateChargebeeWebhookEndpoint_fetch_def Let_def)

lemma kind_create_fetch [simp]:
  "map kind (fst (createChargebeeWebhookEndpoint_fetch k s url u p remote)) = [EndpointCreate]"
  by (simp add: createChargebeeWebhookEndpoint_fetch_def Let_def)

lemma kind_update_sdk [simp]:
  "map kind (fst (updateChargebeeWebhookEndpoint_sdk i url u p remote)) = [EndpointUpdate i]"
  by (simp add: updateChargebeeWebhookEndpoint_sdk_def Let_def)

lemma kind_create_sdk [simp]:
  "map kind (fst (createChargebeeWebhookEndpoint_sdk url u p remote)) = [EndpointCreate]"
  by (simp add: createChargebeeWebhookEndpoint_sdk_def Let_def)

lemma setupChargebeeWebhook_fetch_env:
  assumes "getEnvVar env ''CHARGEBEE_API_KEY'' = Inr k"
      and "getEnvVar env ''CHARGEBEE_SITE'' = Inr s"
      and "getEnvVar env ''CHARGEBEE_WEBHOOK_USERNAME'' = Inr u"
      and "getEnvVar env ''CHARGEBEE_WEBHOOK_PASSWORD'' = Inr p"
  shows "setupChargebeeWebhook_fetch mode url env remote =
     (case find (\<lambda>endpoint. ep_name endpoint = ''Hookdeck Webhook Endpoint'')
             (snd (getChargebeeWebhookEndpoints_fetch k s remote)) of
        Some hookdeckEndpoint \<Rightarrow>
          ([GetEndpoints k s] @
             fst (updateChargebeeWebhookEndpoint_fetch k s (ep_id hookdeckEndpoint) url u p remote),
           snd (updateChargebeeWebhookEndpoint_fetch k s (ep_id hookdeckEndpoint) url u p remote))
      | None \<Rightarrow>
          ([GetEndpoints k s] @ fst (createChargebeeWebhookEndpoint_fetch k s url u p remote),
           snd (createChargebeeWebhookEndpoint_fetch k s url u p remote)))"
  unfolding setupChargebeeWebhook_fetch_def getChargebeeWebhookEndpoints_fetch_def
  by (simp add: assms split: prod.splits option.splits)

lemma setupChargebeeWebhook_sdk_env:
  assumes "getEnvVar env ''CHARGEBEE_WEBHOOK_USERNAME'' = Inr u"
      and "getEnvVar env ''CHARGEBEE_WEBHOOK_PASSWORD'' = Inr p"
  shows "setupChargebeeWebhook_sdk mode url env remote =
     (case find (\<lambda>endpoint. ep_name endpoint = ''Hookdeck Webhook Endpoint'')
             (snd (getChargebeeWebhookEndpoints_sdk remote)) of
        Some hookdeckEndpoint \<Rightarrow>
          ([SdkListEndpoints] @
             fst (updateChargebeeWebhookEndpoint_sdk (ep_id hookdeckEndpoint) url u p remote),
           snd (updateChargebeeWebhookEndpoint_sdk (ep_id hookdeckEndpoint) url u p remote))
      | None \<Rightarrow>
          ([SdkListEndpoints] @ fst (createChargebeeWebhookEndpoint_sdk url u p remote),
           snd (createChargebeeWebhookEndpoint_sdk url u p remote)))"
  unfolding setupChargebeeWebhook_sdk_def getChargebeeWebhookEndpoints_sdk_def
  by (simp add: assms split: prod.splits option.splits)

subsection \<open>C3: update the endpoint when it exists, create it when it does not\<close>

text \<open>
  C3. For every list of existing billing endpoints returned by the listing, in either
  revision: if some endpoint of the list is named \<^verbatim>\<open>Hookdeck Webhook Endpoint\<close>, the
  requests of \<^verbatim>\<open>setupChargebeeWebhook\<close> are the listing and exactly one update, which
  targets the id of such an endpoint (the first one in the list), and no creation; if no
  endpoint has that name, they are the listing and exactly one creation, and no update.
\<close>

theorem endpoint_branch_selection:
  assumes "getEnvVar env ''CHARGEBEE_API_KEY'' = Inr k"
      and "getEnvVar env ''CHARGEBEE_SITE'' = Inr s"
      and "getEnvVar env ''CHARGEBEE_WEBHOOK_USERNAME'' = Inr u"
      and "getEnvVar env ''CHARGEBEE_WEBHOOK_PASSWORD'' = Inr p"
      and "remote (GetEndpoints k s) = Inr rep"
      and "remote SdkListEndpoints = Inr rep"
      and "reply_list rep = Some items"
      and "eps = map webhook_endpoint items"
  shows "((\<exists>e \<in> set eps. ep_name e = ''Hookdeck Webhook Endpoint'') \<longrightarrow>
           (\<exists>e \<in> set eps. ep_name e = ''Hookdeck Webhook Endpoint''
              \<and> find (\<lambda>e. ep_name e = ''Hookdeck Webhook Endpoint'') eps = Some e
              \<and> map kind (fst (setupChargebeeWebhook_fetch mode url env remote))
                    = [EndpointList, EndpointUpdate (ep_id e)]
              \<and> map kind (fst (setupChargebeeWebhook_sdk mode url env remote))
                    = [EndpointList, EndpointUpdate (ep_id e)]))
       \<and> ((\<forall>e \<in> set eps. ep_name e \<noteq> ''Hookdeck Webhook Endpoint'') \<longrightarrow>
             map kind (fst (setupChargebeeWebhook_fetch mode url env remote))
               = [EndpointList, EndpointCreate]
           \<and> map kind (fst (setupChargebeeWebhook_sdk mode url env remote))
               = [EndpointList, EndpointCreate])"
proof -
  define N where "N = ''Hookdeck Webhook Endpoint''"
  have F: "map kind (fst (setupChargebeeWebhook_fetch mode url env remote)) =
      (case find (\<lambda>e. ep_name e = N) eps of
         Some e \<Rightarrow> [EndpointList, EndpointUpdate (ep_id e)]
       | None \<Rightarrow> [EndpointList, EndpointCreate])"
    using assms(5-8)
    by (simp add: setupChargebeeWebhook_fetch_env [OF assms(1-4)]
          getChargebeeWebhookEndpoints_fetch_def N_def split: option.splits)
  have S: "map kind (fst (setupChargebeeWebhook_sdk mode url env remote)) =
      (case find (\<lambda>e. ep_name e = N) eps of
         Some e \<Rightarrow> [EndpointList, EndpointUpdate (ep_id e)]
       | None \<Rightarrow> [EndpointList, EndpointCreate])"
    using assms(5-8)
    by (simp add: setupChargebeeWebhook_sdk_env [OF assms(3-4)]
          getChargebeeWebhookEndpoints_sdk_def N_def split: option.splits)
  have "((\<exists>e \<in> set eps. ep_name e = N) \<longrightarrow>
           (\<exists>e \<in> set eps. ep_name e = N
              \<and> find (\<lambda>e. ep_name e = N) eps = Some e
              \<and> map kind (fst (setupChargebeeWebhook_fetch mode url env remote))
                    = [EndpointList, EndpointUpdate (ep_id e)]
              \<and> map kind (fst (setupChargebeeWebhook_sdk mode url env remote))
                    = [EndpointList, EndpointUpdate (ep_id e)]))
       \<and> ((\<forall>e \<in> set eps. ep_name e \<noteq> N) \<longrightarrow>
             map kind (fst (setupChargebeeWebhook_fetch mode url env remote))
               = [EndpointList, EndpointCreate]
           \<and> map kind (fst (setupChargebeeWebhook_sdk mode url env remote))
               = [EndpointList, EndpointCreate])"
  proof (cases "find (\<lambda>e. ep_name e = N) eps")
    case None
    then have "\<forall>e \<in> set eps. ep_name e \<noteq> N"
      by (simp add: find_None_iff)
    with None show ?thesis
      unfolding F S by simp
  next
    case (Some e)
    then have "e \<in> set eps" "ep_name e = N"
      by (auto simp: find_Some_iff)
    with Some show ?thesis
      unfolding F S by auto
  qed
  then show ?thesis
    unfolding N_def .
qed

theorem endpoint_branch_selection_witness:
  "getEnvVar env_dev ''CHARGEBEE_API_KEY'' = Inr ''cb_key''
   \<and> getEnvVar env_dev ''CHARGEBEE_SITE'' = Inr ''acme-test''
   \<and> getEnvVar env_dev ''CHARGEBEE_WEBHOOK_USERNAME'' = Inr ''hook_user''
   \<and> getEnvVar env_dev ''CHARGEBEE_WEBHOOK_PASSWORD'' = Inr ''hook_pass''
   \<and> \<lparr>ep_id = ''ep_1'', ep_name = ''Hookdeck Webhook Endpoint''\<rparr>
        \<in> set [\<lparr>ep_id = ''ep_0'', ep_name = ''Other endpoint''\<rparr>,
                \<lparr>ep_id = ''ep_1'', ep_name = ''Hookdeck Webhook Endpoint''\<rparr>]
   \<and> map kind (fst (setupChargebeeWebhook_fetch Dev ''https://hkdk.example/abc'' env_dev
         remote_existing)) = [EndpointList, EndpointUpdate ''ep_1'']
   \<and> map kind (fst (setupChargebeeWebhook_sdk Dev ''https://hkdk.example/abc'' env_dev
         remote_existing)) = [EndpointList, EndpointUpdate ''ep_1'']
   \<and> map kind (fst (setupChargebeeWebhook_fetch Dev ''https://hkdk.example/abc'' env_dev
         remote_ok)) = [EndpointList, EndpointCreate]
   \<and> map kind (fst (setupChargebeeWebhook_sdk Dev ''https://hkdk.example/abc'' env_dev
         remote_ok)) = [EndpointList, EndpointCreate]"
proof -
  have env: "getEnvVar env_dev ''CHARGEBEE_API_KEY'' = Inr ''cb_key''"
    "getEnvVar env_dev ''CHARGEBEE_SITE'' = Inr ''acme-test''"
    "getEnvVar env_dev ''CHARGEBEE_WEBHOOK_USERNAME'' = Inr ''hook_user''"
    "getEnvVar env_dev ''CHARGEBEE_WEBHOOK_PASSWORD'' = Inr ''hook_pass''"
    by (simp_all add: getEnvVar_def env_dev_def)
  have l1: "remote_existing (GetEndpoints ''cb_key'' ''acme-test'') =
      Inr \<lparr>reply_id = Some ''src_1'', reply_url = Some ''https://hkdk.example/abc'',
         reply_list = Some
            [\<lparr>webhook_endpoint = \<lparr>ep_id = ''ep_0'', ep_name = ''Other endpoint''\<rparr>\<rparr>,
             \<lparr>webhook_endpoint =
                \<lparr>ep_id = ''ep_1'', ep_name = ''Hookdeck Webhook Endpoint''\<rparr>\<rparr>]\<rparr>"
    by (simp add: remote_existing_def)
  have l2: "remote_existing SdkListEndpoints =
      Inr \<lparr>reply_id = Some ''src_1'', reply_url = Some ''https://hkdk.example/abc'',
         reply_list = Some
            [\<lparr>webhook_endpoint = \<lparr>ep_id = ''ep_0'', ep_name = ''Other endpoint''\<rparr>\<rparr>,
             \<lparr>webhook_endpoint =
                \<lparr>ep_id = ''ep_1'', ep_name = ''Hookdeck Webhook Endpoint''\<rparr>\<rparr>]\<rparr>"
    by (simp add: remote_existing_def)
  have l3: "remote_ok (GetEndpoints ''cb_key'' ''acme-test'') =
      Inr \<lparr>reply_id = Some ''src_1'', reply_url = Some ''https://hkdk.example/abc'',
         reply_list = Some []\<rparr>"
    by (simp add: remote_ok_def)
  have l4: "remote_ok SdkListEndpoints =
      Inr \<lparr>reply_id = Some ''src_1'', reply_url = Some ''https://hkdk.example/abc'',
         reply_list = Some []\<rparr>"
    by (simp add: remote_ok_def)
  have m: "\<lparr>ep_id = ''ep_1'', ep_name = ''Hookdeck Webhook Endpoint''\<rparr>
        \<in> set [\<lparr>ep_id = ''ep_0'', ep_name = ''Other endpoint''\<rparr>,
                \<lparr>ep_id = ''ep_1'', ep_name = ''Hookdeck Webhook Endpoint''\<rparr>]"
    by simp
  have f: "find (\<lambda>e. ep_name e = ''Hookdeck Webhook Endpoint'')
             [\<lparr>ep_id = ''ep_0'', ep_name = ''Other endpoint''\<rparr>,
              \<lparr>ep_id = ''ep_1'', ep_name = ''Hookdeck Webhook Endpoint''\<rparr>]
         = Some \<lparr>ep_id = ''ep_1'', ep_name = ''Hookdeck Webhook Endpoint''\<rparr>"
    by simp
  have existing:
    "map kind (fst (setupChargebeeWebhook_fetch Dev ''https://hkdk.example/abc'' env_dev
         remote_existing)) = [EndpointList, EndpointUpdate ''ep_1'']
     \<and> map kind (fst (setupChargebeeWebhook_sdk Dev ''https://hkdk.example/abc'' env_dev
         remote_existing)) = [EndpointList, EndpointUpdate ''ep_1'']"
    using endpoint_branch_selection [OF env l1 l2, of _ _ Dev "''https://hkdk.example/abc''"] f
    by fastforce
  have absent:
    "map kind (fst (setupChargebeeWebhook_fetch Dev ''https://hkdk.example/abc'' env_dev
         remote_ok)) = [EndpointList, EndpointCreate]
     \<and> map kind (fst (setupChargebeeWebhook_sdk Dev ''https://hkdk.example/abc'' env_dev
         remote_ok)) = [EndpointList, EndpointCreate]"
    using endpoint_branch_selection [OF env l3 l4, of "[]" "[]" Dev "''https://hkdk.example/abc''"]
    by simp
  show ?thesis
    using env m existing absent by blast
qed

subsection \<open>The shape of the billing step and of a whole run\<close>

lemma update_fetch_shape:
  "\<exists>w. updateChargebeeWebhookEndpoint_fetch k s i url u p remote =
         ([w], case remote w of Inl m \<Rightarrow> Inl (RequestFailed m) | Inr _ \<Rightarrow> Inr ())
       \<and> kind w = EndpointUpdate i"
  by (simp add: updateChargebeeWebhookEndpoint_fetch_def Let_def)

lemma create_fetch_shape:
  "\<exists>w. createChargebeeWebhookEndpoint_fetch k s url u p remote =
         ([w], case remote w of Inl m \<Rightarrow> Inl (RequestFailed m) | Inr _ \<Rightarrow> Inr ())
       \<and> kind w = EndpointCreate"
  by (simp add: createChargebeeWebhookEndpoint_fetch_def Let_def)

lemma update_sdk_shape:
  "\<exists>w. updateChargebeeWebhookEndpoint_sdk i url u p remote =
         ([w], case remote w of Inl m \<Rightarrow> Inl (RequestFailed m) | Inr _ \<Rightarrow> Inr ())
       \<and> kind w = EndpointUpdate i"
  by (simp add: updateChargebeeWebhookEndpoint_sdk_def Let_def)

lemma create_sdk_shape:
  "\<exists>w. createChargebeeWebhookEndpoint_sdk url u p remote =
         ([w], case remote w of Inl m \<Rightarrow> Inl (RequestFailed m) | Inr _ \<Rightarrow> Inr ())
       \<and> kind w = EndpointCreate"
  by (simp add: createChargebeeWebhookEndpoint_sdk_def Let_def)

lemma getEnvVar_Inl: "getEnvVar env name = Inl e \<Longrightarrow> e = MissingEnvVar name"
  by (simp add: getEnvVar_Inl_iff)

lemma setupChargebeeWebhook_fetch_shape:
  "(\<exists>v. setupChargebeeWebhook_fetch mode url env remote = ([], Inl (MissingEnvVar v)))
   \<or> (\<exists>l w. setupChargebeeWebhook_fetch mode url env remote =
          ([l, w], case remote w of Inl m \<Rightarrow> Inl (RequestFailed m) | Inr _ \<Rightarrow> Inr ())
        \<and> kind l = EndpointList
        \<and> (kind w = EndpointCreate \<or> (\<exists>i. kind w = EndpointUpdate i))
        \<and> (isl (remote l) \<longrightarrow> kind w = EndpointCreate))"
proof (cases "isl (getEnvVar env ''CHARGEBEE_API_KEY'') \<or> isl (getEnvVar env ''CHARGEBEE_SITE'')
    \<or> isl (getEnvVar env ''CHARGEBEE_WEBHOOK_USERNAME'')
    \<or> isl (getEnvVar env ''CHARGEBEE_WEBHOOK_PASSWORD'')")
  case True
  then have "\<exists>v. setupChargebeeWebhook_fetch mode url env remote = ([], Inl (MissingEnvVar v))"
    unfolding setupChargebeeWebhook_fetch_def
    by (auto split: sum.splits dest: getEnvVar_Inl)
  then show ?thesis by blast
next
  case False
  then obtain k s u p where env:
    "getEnvVar env ''CHARGEBEE_API_KEY'' = Inr k" "getEnvVar env ''CHARGEBEE_SITE'' = Inr s"
    "getEnvVar env ''CHARGEBEE_WEBHOOK_USERNAME'' = Inr u"
    "getEnvVar env ''CHARGEBEE_WEBHOOK_PASSWORD'' = Inr p"
    by (auto simp: isl_def) (metis sum.exhaust)
  define eps where "eps = snd (getChargebeeWebhookEndpoints_fetch k s remote)"
  have down: "eps = []" if "isl (remote (GetEndpoints k s))"
    using that by (auto simp: eps_def getChargebeeWebhookEndpoints_fetch_def isl_def)
  show ?thesis
  proof (cases "find (\<lambda>endpoint. ep_name endpoint = ''Hookdeck Webhook Endpoint'') eps")
    case None
    obtain w where "createChargebeeWebhookEndpoint_fetch k s url u p remote =
         ([w], case remote w of Inl m \<Rightarrow> Inl (RequestFailed m) | Inr _ \<Rightarrow> Inr ())"
       "kind w = EndpointCreate"
      using create_fetch_shape by blast
    with None have "setupChargebeeWebhook_fetch mode url env remote =
          ([GetEndpoints k s, w], case remote w of Inl m \<Rightarrow> Inl (RequestFailed m) | Inr _ \<Rightarrow> Inr ())"
      by (simp add: setupChargebeeWebhook_fetch_env [OF env] eps_def [symmetric])
    with \<open>kind w = EndpointCreate\<close> show ?thesis
      by (intro disjI2 exI [of _ "GetEndpoints k s"] exI [of _ w]) simp
  next
    case (Some e)
    with down have up: "\<not> isl (remote (GetEndpoints k s))"
      by auto
    obtain w where "updateChargebeeWebhookEndpoint_fetch k s (ep_id e) url u p remote =
         ([w], case remote w of Inl m \<Rightarrow> Inl (RequestFailed m) | Inr _ \<Rightarrow> Inr ())"
       "kind w = EndpointUpdate (ep_id e)"
      using update_fetch_shape by blast
    with Some have "setupChargebeeWebhook_fetch mode url env remote =
          ([GetEndpoints k s, w], case remote w of Inl m \<Rightarrow> Inl (RequestFailed m) | Inr _ \<Rightarrow> Inr ())"
      by (simp add: setupChargebeeWebhook_fetch_env [OF env] eps_def [symmetric])
    with \<open>kind w = EndpointUpdate (ep_id e)\<close> up show ?thesis
      by (intro disjI2 exI [of _ "GetEndpoints k s"] exI [of _ w]) simp
  qed
qed

lemma setupChargebeeWebhook_sdk_shape:
  "(\<exists>v. setupChargebeeWebhook_sdk mode url env remote = ([], Inl (MissingEnvVar v)))
   \<or> (\<exists>l w. setupChargebeeWebhook_sdk mode url env remote =
          ([l, w], case remote w of Inl m \<Rightarrow> Inl (RequestFailed m) | Inr _ \<Rightarrow> Inr ())
        \<and> kind l = EndpointList
        \<and> (kind w = EndpointCreate \<or> (\<exists>i. kind w = EndpointUpdate i))
        \<and> (isl (remote l) \<longrightarrow> kind w = EndpointCreate))"
proof (cases "isl (getEnvVar env ''CHARGEBEE_WEBHOOK_USERNAME'')
    \<or> isl (getEnvVar env ''CHARGEBEE_WEBHOOK_PASSWORD'')")
  case True
  then have "\<exists>v. setupChargebeeWebhook_sdk mode url env remote = ([], Inl (MissingEnvVar v))"
    unfolding setupChargebeeWebhook_sdk_def
    by (auto split: sum.splits dest: getEnvVar_Inl)
  then show ?thesis by blast
next
  case False
  then obtain u p where env:
    "getEnvVar env ''CHARGEBEE_WEBHOOK_USERNAME'' = Inr u"
    "getEnvVar env ''CHARGEBEE_WEBHOOK_PASSWORD'' = Inr p"
    by (auto simp: isl_def) (metis sum.exhaust)
  define eps where "eps = snd (getChargebeeWebhookEndpoints_sdk remote)"
  have down: "eps = []" if "isl (remote SdkListEndpoints)"
    using that by (auto simp: eps_def getChargebeeWebhookEndpoints_sdk_def isl_def)
  show ?thesis
  proof (cases "find (\<lambda>endpoint. ep_name endpoint = ''Hookdeck Webhook Endpoint'') eps")
    case None
    obtain w where "createChargebeeWebhookEndpoint_sdk url u p remote =
         ([w], case remote w of Inl m \<Rightarrow> Inl (RequestFailed m) | Inr _ \<Rightarrow> Inr ())"
       "kind w = EndpointCreate"
      using create_sdk_shape by blast
    with None have "setupChargebeeWebhook_sdk mode url env remote =
          ([SdkListEndpoints, w], case remote w of Inl m \<Rightarrow> Inl (RequestFailed m) | Inr _ \<Rightarrow> Inr ())"
      by (simp add: setupChargebeeWebhook_sdk_env [OF env] eps_def [symmetric])
    with \<open>kind w = EndpointCreate\<close> show ?thesis
      by (intro disjI2 exI [of _ "SdkListEndpoints"] exI [of _ w]) simp
  next
    case (Some e)
    with down have up: "\<not> isl (remote SdkListEndpoints)"
      by auto
    obtain w where "updateChargebeeWebhookEndpoint_sdk (ep_id e) url u p remote =
         ([w], case remote w of Inl m \<Rightarrow> Inl (RequestFailed m) | Inr _ \<Rightarrow> Inr ())"
       "kind w = EndpointUpdate (ep_id e)"
      using update_sdk_shape by blast
    with Some have "setupChargebeeWebhook_sdk mode url env remote =
          ([SdkListEndpoints, w], case remote w of Inl m \<Rightarrow> Inl (RequestFailed m) | Inr _ \<Rightarrow> Inr ())"
      by (simp add: setupChargebeeWebhook_sdk_env [OF env] eps_def [symmetric])
    with \<open>kind w = EndpointUpdate (ep_id e)\<close> up show ?thesis
      by (intro disjI2 exI [of _ "SdkListEndpoints"] exI [of _ w]) simp
  qed
qed

lemma gateway_call_kinds:
  assumes "c \<in> set (fst (setupHookdeckConnections key mode env remote))"
  shows "kind c \<noteq> EndpointList \<and> kind c \<noteq> EndpointCreate \<and> kind c \<noteq> EndpointUpdate i"
proof -
  have "kind c \<in> set (map kind (fst (setupHookdeckConnections key mode env remote)))"
    using assms by simp
  then have "kind c \<in> set [SourceUpsert, ConnectionUpsert ''chargebee-customer'',
      ConnectionUpsert ''chargebee-subscription'', ConnectionUpsert ''chargebee-payment'']"
    using set_mono_prefix [OF setupHookdeckConnections_kinds [of key mode env remote]] by blast
  then show ?thesis by auto
qed

text \<open>A run that reaches a billing request has this form.\<close>

lemma main_fetch_billing:
  assumes "c \<in> set (calls (main_fetch env argv remote))"
      and "kind c = EndpointList \<or> kind c = EndpointCreate \<or> (\<exists>i. kind c = EndpointUpdate i)"
  obtains g l w where
      "main_fetch env argv remote =
         \<lparr>calls = g @ [l, w],
          stderr = (case remote w of Inl m \<Rightarrow> [SetupError (RequestFailed m)] | Inr _ \<Rightarrow> []),
          exit_code = (case remote w of Inl m \<Rightarrow> 1 | Inr _ \<Rightarrow> 0)\<rparr>"
      "map kind g = [SourceUpsert, ConnectionUpsert ''chargebee-customer'',
         ConnectionUpsert ''chargebee-subscription'', ConnectionUpsert ''chargebee-payment'']"
      "kind l = EndpointList"
      "kind w = EndpointCreate \<or> (\<exists>i. kind w = EndpointUpdate i)"
      "isl (remote l) \<longrightarrow> kind w = EndpointCreate"
      "c = l \<or> c = w"
proof -
  have not_gateway: "c \<notin> set (fst (setupHookdeckConnections_fetch mode env remote))" for mode
    using assms(2) gateway_call_kinds [of c _ mode env remote]
    unfolding setupHookdeckConnections_fetch_def by blast
  show ?thesis
  proof (cases rule: main_fetch_cases [of env argv remote])
    case rejected
    with assms(1) show ?thesis by simp
  next
    case (gateway mode e)
    with assms(1) not_gateway show ?thesis by simp
  next
    case (billing_failed mode sourceUrl e)
    note g = setupHookdeckConnections_ok
      [OF billing_failed(4) [unfolded setupHookdeckConnections_fetch_def],
       folded setupHookdeckConnections_fetch_def]
    from assms(1) not_gateway billing_failed(6)
    have c: "c \<in> set (fst (setupChargebeeWebhook_fetch mode sourceUrl env remote))"
      by simp
    with setupChargebeeWebhook_fetch_shape [of mode sourceUrl env remote]
    obtain l w where B: "setupChargebeeWebhook_fetch mode sourceUrl env remote =
          ([l, w], case remote w of Inl m \<Rightarrow> Inl (RequestFailed m) | Inr _ \<Rightarrow> Inr ())"
        "kind l = EndpointList"
        "kind w = EndpointCreate \<or> (\<exists>i. kind w = EndpointUpdate i)"
        "isl (remote l) \<longrightarrow> kind w = EndpointCreate"
      by auto
    from B(1) billing_failed(5) obtain m where m: "remote w = Inl m" "e = RequestFailed m"
      by (auto split: sum.splits)
    show ?thesis
      using billing_failed(6) B c m g
      by (intro that [of "fst (setupHookdeckConnections_fetch mode env remote)" l w]) auto
  next
    case (completed mode sourceUrl)
    note g = setupHookdeckConnections_ok
      [OF completed(4) [unfolded setupHookdeckConnections_fetch_def],
       folded setupHookdeckConnections_fetch_def]
    from assms(1) not_gateway completed(6)
    have c: "c \<in> set (fst (setupChargebeeWebhook_fetch mode sourceUrl env remote))"
      by simp
    with setupChargebeeWebhook_fetch_shape [of mode sourceUrl env remote]
    obtain l w where B: "setupChargebeeWebhook_fetch mode sourceUrl env remote =
          ([l, w], case remote w of Inl m \<Rightarrow> Inl (RequestFailed m) | Inr _ \<Rightarrow> Inr ())"
        "kind l = EndpointList"
        "kind w = EndpointCreate \<or> (\<exists>i. kind w = EndpointUpdate i)"
        "isl (remote l) \<longrightarrow> kind w = EndpointCreate"
      by auto
    from B(1) completed(5) obtain rep where m: "remote w = Inr rep"
      by (auto split: sum.splits)
    show ?thesis
      using completed(6) B c m g
      by (intro that [of "fst (setupHookdeckConnections_fetch mode env remote)" l w]) auto
  qed
qed

lemma main_sdk_billing:
  assumes "c \<in> set (calls (main_sdk env argv remote))"
      and "kind c = EndpointList \<or> kind c = EndpointCreate \<or> (\<exists>i. kind c = EndpointUpdate i)"
  obtains g l w where
      "main_sdk env argv remote =
         \<lparr>calls = g @ [l, w],
          stderr = (case remote w of Inl m \<Rightarrow> [SetupError (RequestFailed m)] | Inr _ \<Rightarrow> []),
          exit_code = (case remote w of Inl m \<Rightarrow> 1 | Inr _ \<Rightarrow> 0)\<rparr>"
      "map kind g = [SourceUpsert, ConnectionUpsert ''chargebee-customer'',
         ConnectionUpsert ''chargebee-subscription'', ConnectionUpsert ''chargebee-payment'']"
      "kind l = EndpointList"
      "kind w = EndpointCreate \<or> (\<exists>i. kind w = EndpointUpdate i)"
      "isl (remote l) \<longrightarrow> kind w = EndpointCreate"
      "c = l \<or> c = w"
proof -
  have not_gateway: "c \<notin> set (fst (setupHookdeckConnections_sdk mode env remote))" for mode
    using assms(2) gateway_call_kinds [of c _ mode env remote]
    unfolding setupHookdeckConnections_sdk_def by blast
  show ?thesis
  proof (cases rule: main_sdk_cases [of env argv remote])
    case rejected
    with assms(1) show ?thesis by simp
  next
    case (gateway mode e)
    with assms(1) not_gateway show ?thesis by simp
  next
    case (billing_failed mode sourceUrl e)
    note g = setupHookdeckConnections_ok
      [OF billing_failed(4) [unfolded setupHookdeckConnections_sdk_def],
       folded setupHookdeckConnections_sdk_def]
    from assms(1) not_gateway billing_failed(6)
    have c: "c \<in> set (fst (setupChargebeeWebhook_sdk mode sourceUrl env remote))"
      by simp
    with setupChargebeeWebhook_sdk_shape [of mode sourceUrl env remote]
    obtain l w where B: "setupChargebeeWebhook_sdk mode sourceUrl env remote =
          ([l, w], case remote w of Inl m \<Rightarrow> Inl (RequestFailed m) | Inr _ \<Rightarrow> Inr ())"
        "kind l = EndpointList"
        "kind w = EndpointCreate \<or> (\<exists>i. kind w = EndpointUpdate i)"
        "isl (remote l) \<longrightarrow> kind w = EndpointCreate"
      by auto
    from B(1) billing_failed(5) obtain m where m: "remote w = Inl m" "e = RequestFailed m"
      by (auto split: sum.splits)
    show ?thesis
      using billing_failed(6) B c m g
      by (intro that [of "fst (setupHookdeckConnections_sdk mode env remote)" l w]) auto
  next
    case (completed mode sourceUrl)
    note g = setupHookdeckConnections_ok
      [OF completed(4) [unfolded setupHookdeckConnections_sdk_def],
       folded setupHookdeckConnections_sdk_def]
    from assms(1) not_gateway completed(6)
    have c: "c \<in> set (fst (setupChargebeeWebhook_sdk mode sourceUrl env remote))"
      by simp
    with setupChargebeeWebhook_sdk_shape [of mode sourceUrl env remote]
    obtain l w where B: "setupChargebeeWebhook_sdk mode sourceUrl env remote =
          ([l, w], case remote w of Inl m \<Rightarrow> Inl (RequestFailed m) | Inr _ \<Rightarrow> Inr ())"
        "kind l = EndpointList"
        "kind w = EndpointCreate \<or> (\<exists>i. kind w = EndpointUpdate i)"
        "isl (remote l) \<longrightarrow> kind w = EndpointCreate"
      by auto
    from B(1) completed(5) obtain rep where m: "remote w = Inr rep"
      by (auto split: sum.splits)
    show ?thesis
      using completed(6) B c m g
      by (intro that [of "fst (setupHookdeckConnections_sdk mode env remote)" l w]) auto
  qed
qed

lemma main_fetch_fail_open:
  "(c \<in> set (calls (main_fetch env argv remote)) \<and> kind c = EndpointList \<and> remote c = Inl m \<longrightarrow>
      map kind (calls (main_fetch env argv remote)) =
        [SourceUpsert, ConnectionUpsert ''chargebee-customer'',
         ConnectionUpsert ''chargebee-subscription'', ConnectionUpsert ''chargebee-payment'',
         EndpointList, EndpointCreate]
      \<and> (exit_code (main_fetch env argv remote) = 0 \<longleftrightarrow>
           \<not> isl (remote (last (calls (main_fetch env argv remote))))))
   \<and> (c \<in> set (calls (main_fetch env argv remote))
        \<and> (kind c = EndpointCreate \<or> (\<exists>i. kind c = EndpointUpdate i)) \<and> remote c = Inl m \<longrightarrow>
      exit_code (main_fetch env argv remote) = 1
      \<and> stderr (main_fetch env argv remote) = [SetupError (RequestFailed m)])"
proof (intro conjI impI)
  assume a: "c \<in> set (calls (main_fetch env argv remote)) \<and> kind c = EndpointList \<and> remote c = Inl m"
  then have c1: "c \<in> set (calls (main_fetch env argv remote))"
    and c2: "kind c = EndpointList \<or> kind c = EndpointCreate \<or> (\<exists>i. kind c = EndpointUpdate i)"
    by simp_all
  obtain g l w where M:
      "main_fetch env argv remote =
         \<lparr>calls = g @ [l, w],
          stderr = (case remote w of Inl m \<Rightarrow> [SetupError (RequestFailed m)] | Inr _ \<Rightarrow> []),
          exit_code = (case remote w of Inl m \<Rightarrow> 1 | Inr _ \<Rightarrow> 0)\<rparr>"
      "map kind g = [SourceUpsert, ConnectionUpsert ''chargebee-customer'',
         ConnectionUpsert ''chargebee-subscription'', ConnectionUpsert ''chargebee-payment'']"
      "kind l = EndpointList"
      "kind w = EndpointCreate \<or> (\<exists>i. kind w = EndpointUpdate i)"
      "isl (remote l) \<longrightarrow> kind w = EndpointCreate"
      "c = l \<or> c = w"
    by (rule main_fetch_billing [OF c1 c2])
  from a M(4,6) have "c = l" by auto
  with a M(5) have w: "kind w = EndpointCreate" by simp
  show "map kind (calls (main_fetch env argv remote)) =
        [SourceUpsert, ConnectionUpsert ''chargebee-customer'',
         ConnectionUpsert ''chargebee-subscription'', ConnectionUpsert ''chargebee-payment'',
         EndpointList, EndpointCreate]"
    unfolding M(1) using M(2,3) w by simp
  show "exit_code (main_fetch env argv remote) = 0 \<longleftrightarrow>
           \<not> isl (remote (last (calls (main_fetch env argv remote))))"
    unfolding M(1) by (simp split: sum.splits)
next
  assume a: "c \<in> set (calls (main_fetch env argv remote))
        \<and> (kind c = EndpointCreate \<or> (\<exists>i. kind c = EndpointUpdate i)) \<and> remote c = Inl m"
  then have c1: "c \<in> set (calls (main_fetch env argv remote))"
    and c2: "kind c = EndpointList \<or> kind c = EndpointCreate \<or> (\<exists>i. kind c = EndpointUpdate i)"
    by auto
  obtain g l w where M:
      "main_fetch env argv remote =
         \<lparr>calls = g @ [l, w],
          stderr = (case remote w of Inl m \<Rightarrow> [SetupError (RequestFailed m)] | Inr _ \<Rightarrow> []),
          exit_code = (case remote w of Inl m \<Rightarrow> 1 | Inr _ \<Rightarrow> 0)\<rparr>"
      "map kind g = [SourceUpsert, ConnectionUpsert ''chargebee-customer'',
         ConnectionUpsert ''chargebee-subscription'', ConnectionUpsert ''chargebee-payment'']"
      "kind l = EndpointList"
      "kind w = EndpointCreate \<or> (\<exists>i. kind w = EndpointUpdate i)"
      "isl (remote l) \<longrightarrow> kind w = EndpointCreate"
      "c = l \<or> c = w"
    by (rule main_fetch_billing [OF c1 c2])
  from a M(3,6) have "c = w" by auto
  with a have w: "remote w = Inl m" by simp
  show "exit_code (main_fetch env argv remote) = 1"
    unfolding M(1) by (simp add: w)
  show "stderr (main_fetch env argv remote) = [SetupError (RequestFailed m)]"
    unfolding M(1) by (simp add: w)
qed

lemma main_sdk_fail_open:
  "(c \<in> set (calls (main_sdk env argv remote)) \<and> kind c = EndpointList \<and> remote c = Inl m \<longrightarrow>
      map kind (calls (main_sdk env argv remote)) =
        [SourceUpsert, ConnectionUpsert ''chargebee-customer'',
         ConnectionUpsert ''chargebee-subscription'', ConnectionUpsert ''chargebee-payment'',
         EndpointList, EndpointCreate]
      \<and> (exit_code (main_sdk env argv remote) = 0 \<longleftrightarrow>
           \<not> isl (remote (last (calls (main_sdk env argv remote))))))
   \<and> (c \<in> set (calls (main_sdk env argv remote))
        \<and> (kind c = EndpointCreate \<or> (\<exists>i. kind c = EndpointUpdate i)) \<and> remote c = Inl m \<longrightarrow>
      exit_code (main_sdk env argv remote) = 1
      \<and> stderr (main_sdk env argv remote) = [SetupError (RequestFailed m)])"
proof (intro conjI impI)
  assume a: "c \<in> set (calls (main_sdk env argv remote)) \<and> kind c = EndpointList \<and> remote c = Inl m"
  then have c1: "c \<in> set (calls (main_sdk env argv remote))"
    and c2: "kind c = EndpointList \<or> kind c = EndpointCreate \<or> (\<exists>i. kind c = EndpointUpdate i)"
    by simp_all
  obtain g l w where M:
      "main_sdk env argv remote =
         \<lparr>calls = g @ [l, w],
          stderr = (case remote w of Inl m \<Rightarrow> [SetupError (RequestFailed m)] | Inr _ \<Rightarrow> []),
          exit_code = (case remote w of Inl m \<Rightarrow> 1 | Inr _ \<Rightarrow> 0)\<rparr>"
      "map kind g = [SourceUpsert, ConnectionUpsert ''chargebee-customer'',
         ConnectionUpsert ''chargebee-subscription'', ConnectionUpsert ''chargebee-payment'']"
      "kind l = EndpointList"
      "kind w = EndpointCreate \<or> (\<exists>i. kind w = EndpointUpdate i)"
      "isl (remote l) \<longrightarrow> kind w = EndpointCreate"
      "c = l \<or> c = w"
    by (rule main_sdk_billing [OF c1 c2])
  from a M(4,6) have "c = l" by auto
  with a M(5) have w: "kind w = EndpointCreate" by simp
  show "map kind (calls (main_sdk env argv remote)) =
        [SourceUpsert, ConnectionUpsert ''chargebee-customer'',
         ConnectionUpsert ''chargebee-subscription'', ConnectionUpsert ''chargebee-payment'',
         EndpointList, EndpointCreate]"
    unfolding M(1) using M(2,3) w by simp
  show "exit_code (main_sdk env argv remote) = 0 \<longleftrightarrow>
           \<not> isl (remote (last (calls (main_sdk env argv remote))))"
    unfolding M(1) by (simp split: sum.splits)
next
  assume a: "c \<in> set (calls (main_sdk env argv remote))
        \<and> (kind c = EndpointCreate \<or> (\<exists>i. kind c = EndpointUpdate i)) \<and> remote c = Inl m"
  then have c1: "c \<in> set (calls (main_sdk env argv remote))"
    and c2: "kind c = EndpointList \<or> kind c = EndpointCreate \<or> (\<exists>i. kind c = EndpointUpdate i)"
    by auto
  obtain g l w where M:
      "main_sdk env argv remote =
         \<lparr>calls = g @ [l, w],
          stderr = (case remote w of Inl m \<Rightarrow> [SetupError (RequestFailed m)] | Inr _ \<Rightarrow> []),
          exit_code = (case remote w of Inl m \<Rightarrow> 1 | Inr _ \<Rightarrow> 0)\<rparr>"
      "map kind g = [SourceUpsert, ConnectionUpsert ''chargebee-customer'',
         ConnectionUpsert ''chargebee-subscription'', ConnectionUpsert ''chargebee-payment'']"
      "kind l = EndpointList"
      "kind w = EndpointCreate \<or> (\<exists>i. kind w = EndpointUpdate i)"
      "isl (remote l) \<longrightarrow> kind w = EndpointCreate"
      "c = l \<or> c = w"
    by (rule main_sdk_billing [OF c1 c2])
  from a M(3,6) have "c = w" by auto
  with a have w: "remote w = Inl m" by simp
  show "exit_code (main_sdk env argv remote) = 1"
    unfolding M(1) by (simp add: w)
  show "stderr (main_sdk env argv remote) = [SetupError (RequestFailed m)]"
    unfolding M(1) by (simp add: w)
qed

subsection \<open>C7: a failed listing is an empty list, a failed write aborts\<close>

text \<open>
  C7. In both revisions: when the request that lists the billing endpoints fails, the run
  goes on as with an empty list, to the creation of the endpoint, and ends with status 0
  iff that creation succeeds; when the request that creates or updates the billing
  endpoint fails, the error propagates and the run ends with status 1.
\<close>

theorem listing_fails_open:
  "(c \<in> set (calls (script_fetch env argv remote)) \<and> kind c = EndpointList \<and> remote c = Inl m \<longrightarrow>
      map kind (calls (script_fetch env argv remote)) =
        [SourceUpsert, ConnectionUpsert ''chargebee-customer'',
         ConnectionUpsert ''chargebee-subscription'', ConnectionUpsert ''chargebee-payment'',
         EndpointList, EndpointCreate]
      \<and> (exit_code (script_fetch env argv remote) = 0 \<longleftrightarrow>
           \<not> isl (remote (last (calls (script_fetch env argv remote))))))
   \<and> (c \<in> set (calls (script_fetch env argv remote))
        \<and> (kind c = EndpointCreate \<or> (\<exists>i. kind c = EndpointUpdate i)) \<and> remote c = Inl m \<longrightarrow>
      exit_code (script_fetch env argv remote) = 1
      \<and> stderr (script_fetch env argv remote) = [SetupError (RequestFailed m)])
   \<and> (c \<in> set (calls (script_sdk env argv remote)) \<and> kind c = EndpointList \<and> remote c = Inl m \<longrightarrow>
      map kind (calls (script_sdk env argv remote)) =
        [SourceUpsert, ConnectionUpsert ''chargebee-customer'',
         ConnectionUpsert ''chargebee-subscription'', ConnectionUpsert ''chargebee-payment'',
         EndpointList, EndpointCreate]
      \<and> (exit_code (script_sdk env argv remote) = 0 \<longleftrightarrow>
           \<not> isl (remote (last (calls (script_sdk env argv remote))))))
   \<and> (c \<in> set (calls (script_sdk env argv remote))
        \<and> (kind c = EndpointCreate \<or> (\<exists>i. kind c = EndpointUpdate i)) \<and> remote c = Inl m \<longrightarrow>
      exit_code (script_sdk env argv remote) = 1
      \<and> stderr (script_sdk env argv remote) = [SetupError (RequestFailed m)])"
proof -
  have "script_sdk env argv remote = main_sdk env argv remote
        \<or> calls (script_sdk env argv remote) = []"
    by (auto simp: script_sdk_def split: sum.splits)
  then show ?thesis
  proof
    assume "script_sdk env argv remote = main_sdk env argv remote"
    then show ?thesis
      unfolding script_fetch_def
      using main_fetch_fail_open [of c env argv remote m] main_sdk_fail_open [of c env argv remote m]
      by simp
  next
    assume "calls (script_sdk env argv remote) = []"
    then show ?thesis
      unfolding script_fetch_def
      using main_fetch_fail_open [of c env argv remote m]
      by simp
  qed
qed

theorem listing_fails_open_witness:
  "calls (script_fetch env_dev [''node'', ''upsert-connections.ts'', ''dev''] remote_list_down) ! 4 \<in> set (calls (script_fetch env_dev [''node'', ''upsert-connections.ts'', ''dev''] remote_list_down))
   \<and> kind (calls (script_fetch env_dev [''node'', ''upsert-connections.ts'', ''dev''] remote_list_down) ! 4) = EndpointList
   \<and> remote_list_down (calls (script_fetch env_dev [''node'', ''upsert-connections.ts'', ''dev''] remote_list_down) ! 4) = Inl ''HTTP 503''
   \<and> map kind (calls (script_fetch env_dev [''node'', ''upsert-connections.ts'', ''dev''] remote_list_down)) =
        [SourceUpsert, ConnectionUpsert ''chargebee-customer'',
         ConnectionUpsert ''chargebee-subscription'', ConnectionUpsert ''chargebee-payment'',
         EndpointList, EndpointCreate]
   \<and> exit_code (script_fetch env_dev [''node'', ''upsert-connections.ts'', ''dev''] remote_list_down) = 0
   \<and> calls (script_sdk env_dev [''node'', ''upsert-connections.ts'', ''dev''] remote_create_down) ! 5 \<in> set (calls (script_sdk env_dev [''node'', ''upsert-connections.ts'', ''dev''] remote_create_down))
   \<and> kind (calls (script_sdk env_dev [''node'', ''upsert-connections.ts'', ''dev''] remote_create_down) ! 5) = EndpointCreate
   \<and> remote_create_down (calls (script_sdk env_dev [''node'', ''upsert-connections.ts'', ''dev''] remote_create_down) ! 5) = Inl ''HTTP 400''
   \<and> exit_code (script_sdk env_dev [''node'', ''upsert-connections.ts'', ''dev''] remote_create_down) = 1
   \<and> stderr (script_sdk env_dev [''node'', ''upsert-connections.ts'', ''dev''] remote_create_down) = [SetupError (RequestFailed ''HTTP 400'')]"
proof -
  define R1 where "R1 = script_fetch env_dev [''node'', ''upsert-connections.ts'', ''dev''] remote_list_down"
  define R2 where "R2 = script_sdk env_dev [''node'', ''upsert-connections.ts'', ''dev''] remote_create_down"
  have k1: "map kind (calls R1) =
        [SourceUpsert, ConnectionUpsert ''chargebee-customer'',
         ConnectionUpsert ''chargebee-subscription'', ConnectionUpsert ''chargebee-payment'',
         EndpointList, EndpointCreate]"
    unfolding R1_def by (simp add: run_defs)
  have k2: "map kind (calls R2) =
        [SourceUpsert, ConnectionUpsert ''chargebee-customer'',
         ConnectionUpsert ''chargebee-subscription'', ConnectionUpsert ''chargebee-payment'',
         EndpointList, EndpointCreate]"
    unfolding R2_def by (simp add: run_defs)
  have l1: "length (calls R1) = 6"
    using arg_cong [OF k1, of length] by simp
  have l2: "length (calls R2) = 6"
    using arg_cong [OF k2, of length] by simp
  have "map kind (calls R1) ! 4 = EndpointList"
    unfolding k1 by simp
  then have n1: "kind (calls R1 ! 4) = EndpointList"
    using l1 by simp
  have "map kind (calls R2) ! 5 = EndpointCreate"
    unfolding k2 by simp
  then have n2: "kind (calls R2 ! 5) = EndpointCreate"
    using l2 by simp
  have h1: "calls R1 ! 4 \<in> set (calls R1) \<and> kind (calls R1 ! 4) = EndpointList
      \<and> remote_list_down (calls R1 ! 4) = Inl ''HTTP 503''"
    using n1 l1 by (simp add: remote_list_down_def)
  have h2: "calls R2 ! 5 \<in> set (calls R2)
      \<and> (kind (calls R2 ! 5) = EndpointCreate \<or> (\<exists>i. kind (calls R2 ! 5) = EndpointUpdate i))
      \<and> remote_create_down (calls R2 ! 5) = Inl ''HTTP 400''"
    using n2 l2 by (simp add: remote_create_down_def)
  have e1: "exit_code R1 = 0"
    unfolding R1_def by (simp add: run_defs)
  note T1 = listing_fails_open
    [of "calls R1 ! 4" env_dev "[''node'', ''upsert-connections.ts'', ''dev'']" remote_list_down "''HTTP 503''",
     THEN conjunct1, THEN mp, folded R1_def, OF h1]
  note T2 = listing_fails_open
    [of "calls R2 ! 5" env_dev "[''node'', ''upsert-connections.ts'', ''dev'']" remote_create_down "''HTTP 400''",
     THEN conjunct2, THEN conjunct2, THEN conjunct2, THEN mp, folded R2_def, OF h2]
  have goal: "calls R1 ! 4 \<in> set (calls R1)
   \<and> kind (calls R1 ! 4) = EndpointList
   \<and> remote_list_down (calls R1 ! 4) = Inl ''HTTP 503''
   \<and> map kind (calls R1) =
        [SourceUpsert, ConnectionUpsert ''chargebee-customer'',
         ConnectionUpsert ''chargebee-subscription'', ConnectionUpsert ''chargebee-payment'',
         EndpointList, EndpointCreate]
   \<and> exit_code R1 = 0
   \<and> calls R2 ! 5 \<in> set (calls R2)
   \<and> kind (calls R2 ! 5) = EndpointCreate
   \<and> remote_create_down (calls R2 ! 5) = Inl ''HTTP 400''
   \<and> exit_code R2 = 1
   \<and> stderr R2 = [SetupError (RequestFailed ''HTTP 400'')]"
    by (intro conjI h1 [THEN conjunct1] h1 [THEN conjunct2, THEN conjunct1]
          h1 [THEN conjunct2, THEN conjunct2] T1 [THEN conjunct1] e1
          h2 [THEN conjunct1] n2 h2 [THEN conjunct2, THEN conjunct2]
          T2 [THEN conjunct1] T2 [THEN conjunct2])
  then show ?thesis
    unfolding R1_def R2_def .
qed

subsection \<open>A Source reply without url\<close>

lemma setupHookdeckConnections_no_url:
  assumes "\<forall>c. kind c = SourceUpsert \<longrightarrow> (\<exists>rep. remote c = Inr rep \<and> falsy (reply_url rep))"
  shows "(fst (setupHookdeckConnections key mode env remote) = []
          \<and> (\<exists>v. snd (setupHookdeckConnections key mode env remote) = Inl (MissingEnvVar v)))
       \<or> (map kind (fst (setupHookdeckConnections key mode env remote)) = [SourceUpsert]
          \<and> snd (setupHookdeckConnections key mode env remote) = Inl SourceMissingUrl)"
proof (cases "isl (getEnvVar env ''HOOKDECK_API_KEY'')
    \<or> isl (getEnvVar env ''CHARGEBEE_WEBHOOK_USERNAME'')
    \<or> isl (getEnvVar env ''CHARGEBEE_WEBHOOK_PASSWORD'')")
  case True
  then show ?thesis
    unfolding setupHookdeckConnections_def
    by (auto split: sum.splits dest: getEnvVar_Inl)
next
  case False
  then obtain k u p where env:
    "getEnvVar env ''HOOKDECK_API_KEY'' = Inr k"
    "getEnvVar env ''CHARGEBEE_WEBHOOK_USERNAME'' = Inr u"
    "getEnvVar env ''CHARGEBEE_WEBHOOK_PASSWORD'' = Inr p"
    by (auto simp: isl_def) (metis sum.exhaust)
  define src where "src = \<lparr>src_name = PROJECT_SOURCE_NAME, src_type = ''CHARGEBEE_BILLING'',
              src_config_auth_username = u, src_config_auth_password = p\<rparr>"
  from assms obtain rep where "remote (PutSource k src) = Inr rep" "falsy (reply_url rep)"
    by (metis kind.simps(1))
  then have "upsertHookdeckSource k src remote = ([PutSource k src], Inl SourceMissingUrl)"
    by (simp add: upsertHookdeckSource_def)
  then show ?thesis
    unfolding setupHookdeckConnections_def
    by (simp add: env src_def [symmetric])
qed

lemma main_fetch_no_url:
  assumes "\<forall>c. kind c = SourceUpsert \<longrightarrow> (\<exists>rep. remote c = Inr rep \<and> falsy (reply_url rep))"
  shows "exit_code (main_fetch env argv remote) = 1
       \<and> (calls (main_fetch env argv remote) = []
          \<or> (map kind (calls (main_fetch env argv remote)) = [SourceUpsert]
             \<and> stderr (main_fetch env argv remote) = [SetupError SourceMissingUrl]))"
proof (cases rule: main_fetch_cases [of env argv remote])
  case rejected
  then show ?thesis by simp
next
  case (gateway mode e)
  with setupHookdeckConnections_no_url [OF assms, of "''$starts_with''" mode env,
      folded setupHookdeckConnections_fetch_def]
  show ?thesis by auto
next
  case (billing_failed mode sourceUrl e)
  with setupHookdeckConnections_no_url [OF assms, of "''$starts_with''" mode env,
      folded setupHookdeckConnections_fetch_def]
  show ?thesis by auto
next
  case (completed mode sourceUrl)
  with setupHookdeckConnections_no_url [OF assms, of "''$starts_with''" mode env,
      folded setupHookdeckConnections_fetch_def]
  show ?thesis by auto
qed

lemma main_sdk_no_url:
  assumes "\<forall>c. kind c = SourceUpsert \<longrightarrow> (\<exists>rep. remote c = Inr rep \<and> falsy (reply_url rep))"
  shows "exit_code (main_sdk env argv remote) = 1
       \<and> (calls (main_sdk env argv remote) = []
          \<or> (map kind (calls (main_sdk env argv remote)) = [SourceUpsert]
             \<and> stderr (main_sdk env argv remote) = [SetupError SourceMissingUrl]))"
proof (cases rule: main_sdk_cases [of env argv remote])
  case rejected
  then show ?thesis by simp
next
  case (gateway mode e)
  with setupHookdeckConnections_no_url [OF assms, of "''$startsWith''" mode env,
      folded setupHookdeckConnections_sdk_def]
  show ?thesis by auto
next
  case (billing_failed mode sourceUrl e)
  with setupHookdeckConnections_no_url [OF assms, of "''$startsWith''" mode env,
      folded setupHookdeckConnections_sdk_def]
  show ?thesis by auto
next
  case (completed mode sourceUrl)
  with setupHookdeckConnections_no_url [OF assms, of "''$startsWith''" mode env,
      folded setupHookdeckConnections_sdk_def]
  show ?thesis by auto
qed

subsection \<open>C4: a Source reply without url aborts the run\<close>

text \<open>
  C4. In both revisions: if the reply to the Source upsert has no \<^verbatim>\<open>url\<close> (or an empty
  one), the run ends with status 1, and either it sent nothing at all (it was stopped
  before the Source upsert) or the Source upsert is the only request it sent and the
  error is the missing-URL error of \<^verbatim>\<open>upsertHookdeckSource\<close>: no Connection upsert is
  issued and the billing endpoint is not listed, created or updated.
\<close>

theorem fatal_on_missing_source_url:
  assumes "\<forall>c. kind c = SourceUpsert \<longrightarrow> (\<exists>rep. remote c = Inr rep \<and> falsy (reply_url rep))"
  shows "exit_code (script_fetch env argv remote) = 1
       \<and> (calls (script_fetch env argv remote) = []
          \<or> (map kind (calls (script_fetch env argv remote)) = [SourceUpsert]
             \<and> stderr (script_fetch env argv remote) = [SetupError SourceMissingUrl]))
       \<and> exit_code (script_sdk env argv remote) = 1
       \<and> (calls (script_sdk env argv remote) = []
          \<or> (map kind (calls (script_sdk env argv remote)) = [SourceUpsert]
             \<and> stderr (script_sdk env argv remote) = [SetupError SourceMissingUrl]))"
proof -
  have "script_sdk env argv remote = main_sdk env argv remote
        \<or> (calls (script_sdk env argv remote) = [] \<and> exit_code (script_sdk env argv remote) = 1)"
    by (auto simp: script_sdk_def split: sum.splits)
  then show ?thesis
    using main_fetch_no_url [OF assms, of env argv] main_sdk_no_url [OF assms, of env argv]
    unfolding script_fetch_def by auto
qed

theorem fatal_on_missing_source_url_witness:
  "exit_code (script_fetch env_dev [''node'', ''upsert-connections.ts'', ''dev''] remote_no_url) = 1
   \<and> map kind (calls (script_fetch env_dev [''node'', ''upsert-connections.ts'', ''dev'']
         remote_no_url)) = [SourceUpsert]
   \<and> stderr (script_fetch env_dev [''node'', ''upsert-connections.ts'', ''dev''] remote_no_url)
       = [SetupError SourceMissingUrl]
   \<and> exit_code (script_sdk env_dev [''node'', ''upsert-connections.ts'', ''dev''] remote_no_url) = 1
   \<and> map kind (calls (script_sdk env_dev [''node'', ''upsert-connections.ts'', ''dev'']
         remote_no_url)) = [SourceUpsert]
   \<and> stderr (script_sdk env_dev [''node'', ''upsert-connections.ts'', ''dev''] remote_no_url)
       = [SetupError SourceMissingUrl]"
proof -
  define R1 where "R1 = script_fetch env_dev [''node'', ''upsert-connections.ts'', ''dev''] remote_no_url"
  define R2 where "R2 = script_sdk env_dev [''node'', ''upsert-connections.ts'', ''dev''] remote_no_url"
  have h: "\<forall>c. kind c = SourceUpsert \<longrightarrow>
      (\<exists>rep. remote_no_url c = Inr rep \<and> falsy (reply_url rep))"
    by (simp add: remote_no_url_def falsy_def)
  have n1: "calls R1 \<noteq> []"
    unfolding R1_def by (simp add: run_defs)
  have n2: "calls R2 \<noteq> []"
    unfolding R2_def by (simp add: run_defs)
  note T = fatal_on_missing_source_url
    [OF h, of env_dev "[''node'', ''upsert-connections.ts'', ''dev'']", folded R1_def R2_def]
  have "exit_code R1 = 1 \<and> map kind (calls R1) = [SourceUpsert]
      \<and> stderr R1 = [SetupError SourceMissingUrl]
      \<and> exit_code R2 = 1 \<and> map kind (calls R2) = [SourceUpsert]
      \<and> stderr R2 = [SetupError SourceMissingUrl]"
    using T n1 n2 by blast
  then show ?thesis
    unfolding R1_def R2_def .
qed

subsection \<open>C8: the mode argument\<close>

lemma script_sdk_cases:
  "script_sdk env argv remote = main_sdk env argv remote
   \<or> (\<exists>v. script_sdk env argv remote =
          \<lparr>calls = [], stderr = [Uncaught (MissingEnvVar v)], exit_code = 1\<rparr>)"
  unfolding script_sdk_def
  by (auto split: sum.splits dest: getEnvVar_Inl)

lemma script_sdk_argv:
  assumes "main_sdk env argv remote = main_sdk env argv' remote"
  shows "script_sdk env argv remote = script_sdk env argv' remote"
  using assms unfolding script_sdk_def by (simp split: sum.splits)

text \<open>
  C8, as the code has it. The script reads the first positional argument and lower-cases
  it. With no argument the process ends with status 1 and without any request, after the
  mode-required message and the usage line. With an argument whose lower-casing is neither
  \<^verbatim>\<open>dev\<close> nor \<^verbatim>\<open>prod\<close> it ends with status 1 and without any request, after the
  invalid-mode message. Otherwise the run is that of the exact argument \<^verbatim>\<open>dev\<close> or
  \<^verbatim>\<open>prod\<close>; further arguments are ignored. In the later revision the SDK is configured
  before \<^verbatim>\<open>main\<close>, so that a missing site or API key ends the process first, with
  status 1, without any request, on the uncaught error.
\<close>

theorem cli_mode:
  "(drop 2 argv = [] \<longrightarrow>
      script_fetch env argv remote =
        \<lparr>calls = [], stderr = [ModeRequired, Usage], exit_code = 1\<rparr>
      \<and> calls (script_sdk env argv remote) = [] \<and> exit_code (script_sdk env argv remote) = 1
      \<and> (stderr (script_sdk env argv remote) = [ModeRequired, Usage]
         \<or> (\<exists>v. stderr (script_sdk env argv remote) = [Uncaught (MissingEnvVar v)])))
   \<and> (drop 2 argv \<noteq> [] \<and> toLowerCase (hd (drop 2 argv)) \<noteq> ''dev''
        \<and> toLowerCase (hd (drop 2 argv)) \<noteq> ''prod'' \<longrightarrow>
      script_fetch env argv remote = \<lparr>calls = [], stderr = [InvalidMode], exit_code = 1\<rparr>
      \<and> calls (script_sdk env argv remote) = [] \<and> exit_code (script_sdk env argv remote) = 1
      \<and> (stderr (script_sdk env argv remote) = [InvalidMode]
         \<or> (\<exists>v. stderr (script_sdk env argv remote) = [Uncaught (MissingEnvVar v)])))
   \<and> (drop 2 argv \<noteq> [] \<and> toLowerCase (hd (drop 2 argv)) = ''dev'' \<longrightarrow>
      script_fetch env argv remote = script_fetch env (take 2 argv @ [''dev'']) remote
      \<and> script_sdk env argv remote = script_sdk env (take 2 argv @ [''dev'']) remote)
   \<and> (drop 2 argv \<noteq> [] \<and> toLowerCase (hd (drop 2 argv)) = ''prod'' \<longrightarrow>
      script_fetch env argv remote = script_fetch env (take 2 argv @ [''prod'']) remote
      \<and> script_sdk env argv remote = script_sdk env (take 2 argv @ [''prod'']) remote)"
proof (intro conjI impI)
  assume a: "drop 2 argv = []"
  then show "script_fetch env argv remote =
        \<lparr>calls = [], stderr = [ModeRequired, Usage], exit_code = 1\<rparr>"
    by (simp add: script_fetch_def main_fetch_def)
  from a have m: "main_sdk env argv remote =
        \<lparr>calls = [], stderr = [ModeRequired, Usage], exit_code = 1\<rparr>"
    by (simp add: main_sdk_def)
  from m script_sdk_cases [of env argv remote]
  show "calls (script_sdk env argv remote) = []" by auto
  from m script_sdk_cases [of env argv remote]
  show "exit_code (script_sdk env argv remote) = 1" by auto
  from m script_sdk_cases [of env argv remote]
  show "stderr (script_sdk env argv remote) = [ModeRequired, Usage]
         \<or> (\<exists>v. stderr (script_sdk env argv remote) = [Uncaught (MissingEnvVar v)])"
    by auto
next
  assume a: "drop 2 argv \<noteq> [] \<and> toLowerCase (hd (drop 2 argv)) \<noteq> ''dev''
        \<and> toLowerCase (hd (drop 2 argv)) \<noteq> ''prod''"
  then show "script_fetch env argv remote =
        \<lparr>calls = [], stderr = [InvalidMode], exit_code = 1\<rparr>"
    by (simp add: script_fetch_def main_fetch_def)
  from a have m: "main_sdk env argv remote =
        \<lparr>calls = [], stderr = [InvalidMode], exit_code = 1\<rparr>"
    by (simp add: main_sdk_def)
  from m script_sdk_cases [of env argv remote]
  show "calls (script_sdk env argv remote) = []" by auto
  from m script_sdk_cases [of env argv remote]
  show "exit_code (script_sdk env argv remote) = 1" by auto
  from m script_sdk_cases [of env argv remote]
  show "stderr (script_sdk env argv remote) = [InvalidMode]
         \<or> (\<exists>v. stderr (script_sdk env argv remote) = [Uncaught (MissingEnvVar v)])"
    by auto
next
  assume a: "drop 2 argv \<noteq> [] \<and> toLowerCase (hd (drop 2 argv)) = ''dev''"
  have l: "toLowerCase ''dev'' = ''dev''"
    by (simp add: toLowerCase_def)
  from a have d: "drop 2 (take 2 argv @ [''dev'']) = [''dev'']"
    by (simp add: min_def)
  from a l d show "script_fetch env argv remote = script_fetch env (take 2 argv @ [''dev'']) remote"
    unfolding script_fetch_def main_fetch_def by (simp add: Let_def)
  from a l d have "main_sdk env argv remote = main_sdk env (take 2 argv @ [''dev'']) remote"
    unfolding main_sdk_def by (simp add: Let_def)
  then show "script_sdk env argv remote = script_sdk env (take 2 argv @ [''dev'']) remote"
    by (rule script_sdk_argv)
next
  assume a: "drop 2 argv \<noteq> [] \<and> toLowerCase (hd (drop 2 argv)) = ''prod''"
  have l: "toLowerCase ''prod'' = ''prod''"
    by (simp add: toLowerCase_def)
  from a have d: "drop 2 (take 2 argv @ [''prod'']) = [''prod'']"
    by (simp add: min_def)
  from a l d show "script_fetch env argv remote = script_fetch env (take 2 argv @ [''prod'']) remote"
    unfolding script_fetch_def main_fetch_def by (simp add: Let_def)
  from a l d have "main_sdk env argv remote = main_sdk env (take 2 argv @ [''prod'']) remote"
    unfolding main_sdk_def by (simp add: Let_def)
  then show "script_sdk env argv remote = script_sdk env (take 2 argv @ [''prod'']) remote"
    by (rule script_sdk_argv)
qed

theorem cli_mode_witness:
  "script_fetch env_dev [''node'', ''upsert-connections.ts''] remote_ok =
     \<lparr>calls = [], stderr = [ModeRequired, Usage], exit_code = 1\<rparr>
   \<and> exit_code (script_sdk env_dev [''node'', ''upsert-connections.ts''] remote_ok) = 1
   \<and> toLowerCase ''Staging'' = ''staging''
   \<and> script_fetch env_dev [''node'', ''upsert-connections.ts'', ''Staging''] remote_ok =
     \<lparr>calls = [], stderr = [InvalidMode], exit_code = 1\<rparr>
   \<and> calls (script_sdk env_dev [''node'', ''upsert-connections.ts'', ''Staging''] remote_ok) = []
   \<and> toLowerCase ''DEV'' = ''dev''
   \<and> script_fetch env_dev [''node'', ''upsert-connections.ts'', ''DEV'', ''extra''] remote_ok =
       script_fetch env_dev [''node'', ''upsert-connections.ts'', ''dev''] remote_ok
   \<and> toLowerCase ''Prod'' = ''prod''
   \<and> script_sdk env_prod [''node'', ''upsert-connections.ts'', ''Prod''] remote_ok =
       script_sdk env_prod [''node'', ''upsert-connections.ts'', ''prod''] remote_ok"
proof -
  have s: "toLowerCase ''Staging'' = ''staging''" by code_simp
  have d: "toLowerCase ''DEV'' = ''dev''" by code_simp
  have p: "toLowerCase ''Prod'' = ''prod''" by code_simp
  have h1: "drop 2 [''node'', ''upsert-connections.ts''] = []"
    by simp
  have h2: "drop 2 [''node'', ''upsert-connections.ts'', ''Staging''] \<noteq> []
      \<and> toLowerCase (hd (drop 2 [''node'', ''upsert-connections.ts'', ''Staging''])) \<noteq> ''dev''
      \<and> toLowerCase (hd (drop 2 [''node'', ''upsert-connections.ts'', ''Staging''])) \<noteq> ''prod''"
    by (simp add: s)
  have h3: "drop 2 [''node'', ''upsert-connections.ts'', ''DEV'', ''extra''] \<noteq> []
      \<and> toLowerCase (hd (drop 2 [''node'', ''upsert-connections.ts'', ''DEV'', ''extra''])) = ''dev''"
    by (simp add: d)
  have h4: "drop 2 [''node'', ''upsert-connections.ts'', ''Prod''] \<noteq> []
      \<and> toLowerCase (hd (drop 2 [''node'', ''upsert-connections.ts'', ''Prod''])) = ''prod''"
    by (simp add: p)
  note T1 = cli_mode [of "[''node'', ''upsert-connections.ts'']" env_dev remote_ok,
    THEN conjunct1, THEN mp, OF h1]
  note T2 = cli_mode [of "[''node'', ''upsert-connections.ts'', ''Staging'']" env_dev remote_ok,
    THEN conjunct2, THEN conjunct1, THEN mp, OF h2]
  note T3 = cli_mode [of "[''node'', ''upsert-connections.ts'', ''DEV'', ''extra'']" env_dev remote_ok,
    THEN conjunct2, THEN conjunct2, THEN conjunct1, THEN mp, OF h3, THEN conjunct1]
  note T4 = cli_mode [of "[''node'', ''upsert-connections.ts'', ''Prod'']" env_prod remote_ok,
    THEN conjunct2, THEN conjunct2, THEN conjunct2, THEN mp, OF h4, THEN conjunct2]
  have t3: "script_fetch env_dev [''node'', ''upsert-connections.ts'', ''DEV'', ''extra''] remote_ok =
       script_fetch env_dev [''node'', ''upsert-connections.ts'', ''dev''] remote_ok"
    using T3 by simp
  have t4: "script_sdk env_prod [''node'', ''upsert-connections.ts'', ''Prod''] remote_ok =
       script_sdk env_prod [''node'', ''upsert-connections.ts'', ''prod''] remote_ok"
    using T4 by simp
  show ?thesis
    by (intro conjI T1 [THEN conjunct1] T1 [THEN conjunct2, THEN conjunct2, THEN conjunct1]
          s T2 [THEN conjunct1] T2 [THEN conjunct2, THEN conjunct1] d t3 p t4)
qed

text \<open>
  C8 as the spec words it fails: the argument \<^verbatim>\<open>DEV\<close> is neither of the two exact strings,
  and the run is accepted and completes.
\<close>

theorem cli_mode_counterexample:
  "''DEV'' \<noteq> ''dev'' \<and> ''DEV'' \<noteq> ''prod''
   \<and> exit_code (script_fetch env_dev [''node'', ''upsert-connections.ts'', ''DEV''] remote_ok) = 0
   \<and> length (calls (script_fetch env_dev [''node'', ''upsert-connections.ts'', ''DEV''] remote_ok)) = 6
   \<and> exit_code (script_sdk env_dev [''node'', ''upsert-connections.ts'', ''DEV''] remote_ok) = 0
   \<and> length (calls (script_sdk env_dev [''node'', ''upsert-connections.ts'', ''DEV''] remote_ok)) = 6"
  by code_simp

subsection \<open>Missing variables\<close>

lemma getEnvVar_falsy: "falsy (env name) \<Longrightarrow> getEnvVar env name = Inl (MissingEnvVar name)"
  by (simp add: getEnvVar_Inl_iff)

lemma setupHookdeckConnections_env_missing:
  assumes "falsy (env ''HOOKDECK_API_KEY'') \<or> falsy (env ''CHARGEBEE_WEBHOOK_USERNAME'')
      \<or> falsy (env ''CHARGEBEE_WEBHOOK_PASSWORD'')"
  shows "fst (setupHookdeckConnections key mode env remote) = []
       \<and> isl (snd (setupHookdeckConnections key mode env remote))"
proof -
  have "isl (getEnvVar env ''HOOKDECK_API_KEY'') \<or> isl (getEnvVar env ''CHARGEBEE_WEBHOOK_USERNAME'')
      \<or> isl (getEnvVar env ''CHARGEBEE_WEBHOOK_PASSWORD'')"
    using assms by (auto simp: getEnvVar_falsy)
  then show ?thesis
    unfolding setupHookdeckConnections_def
    by (auto split: sum.splits)
qed

lemma connections_prod_url_missing:
  assumes "falsy (env ''PROD_DESTINATION_URL'')"
  shows "connections key Prod env sid = Inl (MissingEnvVar ''PROD_DESTINATION_URL'')"
  using assms by (simp add: connections_def createDestination_def getEnvVar_falsy)

lemma setupHookdeckConnections_prod_url_missing:
  assumes "falsy (env ''PROD_DESTINATION_URL'')"
  shows "prefix (map kind (fst (setupHookdeckConnections key Prod env remote))) [SourceUpsert]
       \<and> isl (snd (setupHookdeckConnections key Prod env remote))"
  unfolding setupHookdeckConnections_def
  using assms
  by (auto simp: connections_prod_url_missing upsertHookdeckSource_def
           split: sum.splits option.splits)

lemma setupChargebeeWebhook_fetch_env_missing:
  assumes "falsy (env ''CHARGEBEE_API_KEY'') \<or> falsy (env ''CHARGEBEE_SITE'')"
  shows "fst (setupChargebeeWebhook_fetch mode url env remote) = []
       \<and> isl (snd (setupChargebeeWebhook_fetch mode url env remote))"
proof -
  have "isl (getEnvVar env ''CHARGEBEE_API_KEY'') \<or> isl (getEnvVar env ''CHARGEBEE_SITE'')"
    using assms by (auto simp: getEnvVar_falsy)
  then show ?thesis
    unfolding setupChargebeeWebhook_fetch_def
    by (auto split: sum.splits)
qed

lemma main_fetch_env_missing:
  assumes "falsy (env ''HOOKDECK_API_KEY'') \<or> falsy (env ''CHARGEBEE_WEBHOOK_USERNAME'')
      \<or> falsy (env ''CHARGEBEE_WEBHOOK_PASSWORD'')"
  shows "calls (main_fetch env argv remote) = [] \<and> exit_code (main_fetch env argv remote) = 1"
proof (cases rule: main_fetch_cases [of env argv remote])
  case rejected
  then show ?thesis by simp
next
  case (gateway mode e)
  with setupHookdeckConnections_env_missing [OF assms, of "''$starts_with''" mode remote,
      folded setupHookdeckConnections_fetch_def]
  show ?thesis by simp
next
  case (billing_failed mode sourceUrl e)
  with setupHookdeckConnections_env_missing [OF assms, of "''$starts_with''" mode remote,
      folded setupHookdeckConnections_fetch_def]
  show ?thesis by simp
next
  case (completed mode sourceUrl)
  with setupHookdeckConnections_env_missing [OF assms, of "''$starts_with''" mode remote,
      folded setupHookdeckConnections_fetch_def]
  show ?thesis by simp
qed

lemma main_fetch_prod_url_missing:
  assumes "drop 2 argv \<noteq> []" "toLowerCase (hd (drop 2 argv)) = ''prod''"
      and "falsy (env ''PROD_DESTINATION_URL'')"
  shows "exit_code (main_fetch env argv remote) = 1
       \<and> prefix (map kind (calls (main_fetch env argv remote))) [SourceUpsert]"
proof -
  have m: "as_Mode ''prod'' = Prod"
    by (simp add: as_Mode_def)
  note S = setupHookdeckConnections_prod_url_missing [of env "''$starts_with''" remote,
      folded setupHookdeckConnections_fetch_def, OF assms(3)]
  show ?thesis
  proof (cases rule: main_fetch_cases [of env argv remote])
    case rejected
    then show ?thesis by simp
  next
    case (gateway mode e)
    with S assms(2) m show ?thesis by simp
  next
    case (billing_failed mode sourceUrl e)
    with S assms(2) m show ?thesis by simp
  next
    case (completed mode sourceUrl)
    with S assms(2) m show ?thesis by simp
  qed
qed

lemma main_sdk_env_missing:
  assumes "falsy (env ''HOOKDECK_API_KEY'') \<or> falsy (env ''CHARGEBEE_WEBHOOK_USERNAME'')
      \<or> falsy (env ''CHARGEBEE_WEBHOOK_PASSWORD'')"
  shows "calls (main_sdk env argv remote) = [] \<and> exit_code (main_sdk env argv remote) = 1"
proof (cases rule: main_sdk_cases [of env argv remote])
  case rejected
  then show ?thesis by simp
next
  case (gateway mode e)
  with setupHookdeckConnections_env_missing [OF assms, of "''$startsWith''" mode remote,
      folded setupHookdeckConnections_sdk_def]
  show ?thesis by simp
next
  case (billing_failed mode sourceUrl e)
  with setupHookdeckConnections_env_missing [OF assms, of "''$startsWith''" mode remote,
      folded setupHookdeckConnections_sdk_def]
  show ?thesis by simp
next
  case (completed mode sourceUrl)
  with setupHookdeckConnections_env_missing [OF assms, of "''$startsWith''" mode remote,
      folded setupHookdeckConnections_sdk_def]
  show ?thesis by simp
qed

lemma main_sdk_prod_url_missing:
  assumes "drop 2 argv \<noteq> []" "toLowerCase (hd (drop 2 argv)) = ''prod''"
      and "falsy (env ''PROD_DESTINATION_URL'')"
  shows "exit_code (main_sdk env argv remote) = 1
       \<and> prefix (map kind (calls (main_sdk env argv remote))) [SourceUpsert]"
proof -
  have m: "as_Mode ''prod'' = Prod"
    by (simp add: as_Mode_def)
  note S = setupHookdeckConnections_prod_url_missing [of env "''$startsWith''" remote,
      folded setupHookdeckConnections_sdk_def, OF assms(3)]
  show ?thesis
  proof (cases rule: main_sdk_cases [of env argv remote])
    case rejected
    then show ?thesis by simp
  next
    case (gateway mode e)
    with S assms(2) m show ?thesis by simp
  next
    case (billing_failed mode sourceUrl e)
    with S assms(2) m show ?thesis by simp
  next
    case (completed mode sourceUrl)
    with S assms(2) m show ?thesis by simp
  qed
qed

lemma main_fetch_billing_env_missing:
  assumes "falsy (env ''CHARGEBEE_API_KEY'') \<or> falsy (env ''CHARGEBEE_SITE'')"
  shows "exit_code (main_fetch env argv remote) = 1
       \<and> prefix (map kind (calls (main_fetch env argv remote)))
            [SourceUpsert, ConnectionUpsert ''chargebee-customer'',
             ConnectionUpsert ''chargebee-subscription'', ConnectionUpsert ''chargebee-payment'']"
proof (cases rule: main_fetch_cases [of env argv remote])
  case rejected
  then show ?thesis by simp
next
  case (gateway mode e)
  with setupHookdeckConnections_kinds [of "''$starts_with''" mode env remote,
      folded setupHookdeckConnections_fetch_def]
  show ?thesis by simp
next
  case (billing_failed mode sourceUrl e)
  note g = setupHookdeckConnections_ok
    [OF billing_failed(4) [unfolded setupHookdeckConnections_fetch_def],
     folded setupHookdeckConnections_fetch_def]
  from billing_failed(6) g setupChargebeeWebhook_fetch_env_missing [OF assms, of mode sourceUrl remote]
  show ?thesis by simp
next
  case (completed mode sourceUrl)
  with setupChargebeeWebhook_fetch_env_missing [OF assms, of mode sourceUrl remote]
  show ?thesis by simp
qed

lemma script_sdk_billing_env_missing:
  assumes "falsy (env ''CHARGEBEE_API_KEY'') \<or> falsy (env ''CHARGEBEE_SITE'')"
  shows "calls (script_sdk env argv remote) = [] \<and> exit_code (script_sdk env argv remote) = 1"
proof -
  have "isl (getEnvVar env ''CHARGEBEE_SITE'') \<or> isl (getEnvVar env ''CHARGEBEE_API_KEY'')"
    using assms by (auto simp: getEnvVar_falsy)
  then show ?thesis
    unfolding script_sdk_def by (auto split: sum.splits)
qed

subsection \<open>C6: when a missing variable stops the run\<close>

text \<open>
  C6, as the code has it. Each variable is read where it is first used, and a missing or
  empty one ends the run with status 1 at that point. The gateway API key and the webhook
  user name and password are read before the Source upsert is sent: no request is issued.
  In the later revision the billing API key and site are read when the SDK is configured,
  before \<^verbatim>\<open>main\<close>: no request is issued; in the earlier revision they are read after the
  gateway step: only gateway requests may have been issued, and no billing request. The
  base destination URL is read in prod mode when the destinations are built, after the
  Source upsert: at most the Source upsert has been issued, and no Connection upsert or
  billing request.
\<close>

theorem missing_variables:
  "(falsy (env ''HOOKDECK_API_KEY'') \<or> falsy (env ''CHARGEBEE_WEBHOOK_USERNAME'')
      \<or> falsy (env ''CHARGEBEE_WEBHOOK_PASSWORD'') \<longrightarrow>
      calls (script_fetch env argv remote) = [] \<and> exit_code (script_fetch env argv remote) = 1
      \<and> calls (script_sdk env argv remote) = [] \<and> exit_code (script_sdk env argv remote) = 1)
   \<and> (falsy (env ''CHARGEBEE_API_KEY'') \<or> falsy (env ''CHARGEBEE_SITE'') \<longrightarrow>
      calls (script_sdk env argv remote) = [] \<and> exit_code (script_sdk env argv remote) = 1
      \<and> exit_code (script_fetch env argv remote) = 1
      \<and> prefix (map kind (calls (script_fetch env argv remote)))
            [SourceUpsert, ConnectionUpsert ''chargebee-customer'',
             ConnectionUpsert ''chargebee-subscription'', ConnectionUpsert ''chargebee-payment''])
   \<and> (drop 2 argv \<noteq> [] \<and> toLowerCase (hd (drop 2 argv)) = ''prod''
        \<and> falsy (env ''PROD_DESTINATION_URL'') \<longrightarrow>
      exit_code (script_fetch env argv remote) = 1
      \<and> prefix (map kind (calls (script_fetch env argv remote))) [SourceUpsert]
      \<and> exit_code (script_sdk env argv remote) = 1
      \<and> prefix (map kind (calls (script_sdk env argv remote))) [SourceUpsert])"
proof -
  have sdk: "script_sdk env argv remote = main_sdk env argv remote
        \<or> (calls (script_sdk env argv remote) = [] \<and> exit_code (script_sdk env argv remote) = 1)"
    by (auto simp: script_sdk_def split: sum.splits)
  show ?thesis
  proof (intro conjI impI)
    assume a: "falsy (env ''HOOKDECK_API_KEY'') \<or> falsy (env ''CHARGEBEE_WEBHOOK_USERNAME'')
      \<or> falsy (env ''CHARGEBEE_WEBHOOK_PASSWORD'')"
    from main_fetch_env_missing [OF a, of argv remote]
    show "calls (script_fetch env argv remote) = []" "exit_code (script_fetch env argv remote) = 1"
      unfolding script_fetch_def by simp_all
    from main_sdk_env_missing [OF a, of argv remote] sdk
    show "calls (script_sdk env argv remote) = []" "exit_code (script_sdk env argv remote) = 1"
      by auto
  next
    assume a: "falsy (env ''CHARGEBEE_API_KEY'') \<or> falsy (env ''CHARGEBEE_SITE'')"
    from script_sdk_billing_env_missing [OF a, of argv remote]
    show "calls (script_sdk env argv remote) = []" "exit_code (script_sdk env argv remote) = 1"
      by simp_all
    from main_fetch_billing_env_missing [OF a, of argv remote]
    show "exit_code (script_fetch env argv remote) = 1"
      "prefix (map kind (calls (script_fetch env argv remote)))
            [SourceUpsert, ConnectionUpsert ''chargebee-customer'',
             ConnectionUpsert ''chargebee-subscription'', ConnectionUpsert ''chargebee-payment'']"
      unfolding script_fetch_def by simp_all
  next
    assume a: "drop 2 argv \<noteq> [] \<and> toLowerCase (hd (drop 2 argv)) = ''prod''
        \<and> falsy (env ''PROD_DESTINATION_URL'')"
    then have a1: "drop 2 argv \<noteq> []" and a2: "toLowerCase (hd (drop 2 argv)) = ''prod''"
      and a3: "falsy (env ''PROD_DESTINATION_URL'')"
      by simp_all
    from main_fetch_prod_url_missing [where env = env and argv = argv and remote = remote, OF a1 a2 a3]
    show "exit_code (script_fetch env argv remote) = 1"
      "prefix (map kind (calls (script_fetch env argv remote))) [SourceUpsert]"
      unfolding script_fetch_def by simp_all
    from main_sdk_prod_url_missing [where env = env and argv = argv and remote = remote, OF a1 a2 a3] sdk
    show "exit_code (script_sdk env argv remote) = 1"
      "prefix (map kind (calls (script_sdk env argv remote))) [SourceUpsert]"
      by auto
  qed
qed

theorem missing_variables_witness:
  "falsy ((env_dev(''HOOKDECK_API_KEY'' := None)) ''HOOKDECK_API_KEY'')
   \<and> calls (script_fetch (env_dev(''HOOKDECK_API_KEY'' := None))
        [''node'', ''upsert-connections.ts'', ''dev''] remote_ok) = []
   \<and> exit_code (script_sdk (env_dev(''HOOKDECK_API_KEY'' := None))
        [''node'', ''upsert-connections.ts'', ''dev''] remote_ok) = 1
   \<and> falsy ((env_dev(''CHARGEBEE_SITE'' \<mapsto> [])) ''CHARGEBEE_SITE'')
   \<and> calls (script_sdk (env_dev(''CHARGEBEE_SITE'' \<mapsto> []))
        [''node'', ''upsert-connections.ts'', ''dev''] remote_ok) = []
   \<and> exit_code (script_fetch (env_dev(''CHARGEBEE_SITE'' \<mapsto> []))
        [''node'', ''upsert-connections.ts'', ''dev''] remote_ok) = 1
   \<and> toLowerCase ''prod'' = ''prod''
   \<and> falsy (env_dev ''PROD_DESTINATION_URL'')
   \<and> exit_code (script_fetch env_dev [''node'', ''upsert-connections.ts'', ''prod''] remote_ok) = 1
   \<and> prefix (map kind (calls (script_sdk env_dev [''node'', ''upsert-connections.ts'', ''prod'']
         remote_ok))) [SourceUpsert]"
proof -
  have h1: "falsy ((env_dev(''HOOKDECK_API_KEY'' := None)) ''HOOKDECK_API_KEY'')"
    by (simp add: falsy_def)
  have h2: "falsy ((env_dev(''CHARGEBEE_SITE'' \<mapsto> [])) ''CHARGEBEE_SITE'')"
    by (simp add: falsy_def)
  have l: "toLowerCase ''prod'' = ''prod''"
    by (simp add: toLowerCase_def)
  have h3: "falsy (env_dev ''PROD_DESTINATION_URL'')"
    by (simp add: falsy_def env_dev_def)
  have h3': "drop 2 [''node'', ''upsert-connections.ts'', ''prod''] \<noteq> []
      \<and> toLowerCase (hd (drop 2 [''node'', ''upsert-connections.ts'', ''prod''])) = ''prod''
      \<and> falsy (env_dev ''PROD_DESTINATION_URL'')"
    using l h3 by simp
  note T1 = missing_variables
    [of "env_dev(''HOOKDECK_API_KEY'' := None)" "[''node'', ''upsert-connections.ts'', ''dev'']"
        remote_ok, THEN conjunct1, THEN mp, OF disjI1, OF h1]
  note T2 = missing_variables
    [of "env_dev(''CHARGEBEE_SITE'' \<mapsto> [])" "[''node'', ''upsert-connections.ts'', ''dev'']"
        remote_ok, THEN conjunct2, THEN conjunct1, THEN mp, OF disjI2, OF h2]
  note T3 = missing_variables
    [of env_dev "[''node'', ''upsert-connections.ts'', ''prod'']"
        remote_ok, THEN conjunct2, THEN conjunct2, THEN mp, OF h3']
  show ?thesis
    by (intro conjI h1 T1 [THEN conjunct1]
          T1 [THEN conjunct2, THEN conjunct2, THEN conjunct2]
          h2 T2 [THEN conjunct1] T2 [THEN conjunct2, THEN conjunct2, THEN conjunct1]
          l h3 T3 [THEN conjunct1] T3 [THEN conjunct2, THEN conjunct2, THEN conjunct2])
qed

text \<open>
  C6 as the spec words it fails. In prod mode without the base destination URL the Source
  upsert has been sent when the missing variable stops the run; in the earlier revision,
  without the billing API key, the Source upsert and the three Connection upserts have
  been sent.
\<close>

theorem missing_variables_counterexample:
  "env_dev ''PROD_DESTINATION_URL'' = None
   \<and> map kind (calls (script_fetch env_dev [''node'', ''upsert-connections.ts'', ''prod'']
         remote_ok)) = [SourceUpsert]
   \<and> stderr (script_fetch env_dev [''node'', ''upsert-connections.ts'', ''prod''] remote_ok)
       = [SetupError (MissingEnvVar ''PROD_DESTINATION_URL'')]
   \<and> map kind (calls (script_sdk env_dev [''node'', ''upsert-connections.ts'', ''prod'']
         remote_ok)) = [SourceUpsert]
   \<and> stderr (script_sdk env_dev [''node'', ''upsert-connections.ts'', ''prod''] remote_ok)
       = [SetupError (MissingEnvVar ''PROD_DESTINATION_URL'')]
   \<and> (env_dev(''CHARGEBEE_API_KEY'' := None)) ''CHARGEBEE_API_KEY'' = None
   \<and> map kind (calls (script_fetch (env_dev(''CHARGEBEE_API_KEY'' := None))
         [''node'', ''upsert-connections.ts'', ''dev''] remote_ok))
       = [SourceUpsert, ConnectionUpsert ''chargebee-customer'',
          ConnectionUpsert ''chargebee-subscription'', ConnectionUpsert ''chargebee-payment'']
   \<and> stderr (script_fetch (env_dev(''CHARGEBEE_API_KEY'' := None))
         [''node'', ''upsert-connections.ts'', ''dev''] remote_ok)
       = [SetupError (MissingEnvVar ''CHARGEBEE_API_KEY'')]"
  by (simp add: run_defs)

subsection \<open>The event list of a billing request\<close>

lemma write_body_kind:
  "write_body c = Some b \<Longrightarrow> kind c = EndpointCreate \<or> (\<exists>i. kind c = EndpointUpdate i)"
  by (cases c) auto

lemma update_fetch_events:
  assumes "c \<in> set (fst (updateChargebeeWebhookEndpoint_fetch k s i url u p remote))"
      and "write_body c = Some b"
  shows "field ''webhook_events'' b = Some (JArray (map JString
         [''customer_created'', ''customer_updated'', ''customer_deleted'',
          ''customer_changed'', ''customer_moved_in'', ''customer_moved_out'',
          ''subscription_created'', ''subscription_started'',
          ''subscription_activated'', ''subscription_changed'',
          ''subscription_cancelled'', ''subscription_reactivated'',
          ''subscription_renewed'', ''subscription_scheduled_cancellation_removed'',
          ''subscription_changes_scheduled'',
          ''subscription_scheduled_changes_removed'',
          ''subscription_shipping_address_updated'', ''subscription_deleted'',
          ''subscription_paused'', ''subscription_resumed'',
          ''payment_succeeded'']))
       \<and> field ''enabled_events'' b = None"
  using assms by (auto simp: updateChargebeeWebhookEndpoint_fetch_def Let_def)

lemma create_fetch_events:
  assumes "c \<in> set (fst (createChargebeeWebhookEndpoint_fetch k s url u p remote))"
      and "write_body c = Some b"
  shows "field ''webhook_events'' b = Some (JArray (map JString
         [''customer_created'', ''customer_updated'', ''customer_deleted'',
          ''customer_changed'', ''customer_moved_in'', ''customer_moved_out'',
          ''subscription_created'', ''subscription_started'',
          ''subscription_activated'', ''subscription_changed'',
          ''subscription_cancelled'', ''subscription_reactivated'',
          ''subscription_renewed'', ''subscription_scheduled_cancellation_removed'',
          ''subscription_changes_scheduled'',
          ''subscription_scheduled_changes_removed'',
          ''subscription_shipping_address_updated'', ''subscription_deleted'',
          ''subscription_paused'', ''subscription_resumed'',
          ''payment_succeeded'']))
       \<and> field ''enabled_events'' b = None"
  using assms by (auto simp: createChargebeeWebhookEndpoint_fetch_def Let_def)

lemma update_sdk_events:
  assumes "c \<in> set (fst (updateChargebeeWebhookEndpoint_sdk i url u p remote))"
      and "write_body c = Some b"
  shows "field ''enabled_events'' b = Some (JArray (map JString ALL_WEBHOOK_EVENTS))"
  using assms by (auto simp: updateChargebeeWebhookEndpoint_sdk_def Let_def)

lemma create_sdk_events:
  assumes "c \<in> set (fst (createChargebeeWebhookEndpoint_sdk url u p remote))"
      and "write_body c = Some b"
  shows "field ''enabled_events'' b = Some (JArray (map JString ALL_WEBHOOK_EVENTS))"
  using assms by (auto simp: createChargebeeWebhookEndpoint_sdk_def Let_def)

lemma setupChargebeeWebhook_fetch_writes:
  assumes "c \<in> set (fst (setupChargebeeWebhook_fetch mode url env remote))"
      and "write_body c = Some b"
  shows "\<exists>k s u p. (\<exists>i. c \<in> set (fst (updateChargebeeWebhookEndpoint_fetch k s i url u p remote)))
           \<or> c \<in> set (fst (createChargebeeWebhookEndpoint_fetch k s url u p remote))"
proof (cases "isl (getEnvVar env ''CHARGEBEE_API_KEY'') \<or> isl (getEnvVar env ''CHARGEBEE_SITE'')
    \<or> isl (getEnvVar env ''CHARGEBEE_WEBHOOK_USERNAME'')
    \<or> isl (getEnvVar env ''CHARGEBEE_WEBHOOK_PASSWORD'')")
  case True
  then have "fst (setupChargebeeWebhook_fetch mode url env remote) = []"
    unfolding setupChargebeeWebhook_fetch_def
    by (auto split: sum.splits)
  with assms(1) show ?thesis by simp
next
  case False
  then obtain k s u p where env:
    "getEnvVar env ''CHARGEBEE_API_KEY'' = Inr k" "getEnvVar env ''CHARGEBEE_SITE'' = Inr s"
    "getEnvVar env ''CHARGEBEE_WEBHOOK_USERNAME'' = Inr u"
    "getEnvVar env ''CHARGEBEE_WEBHOOK_PASSWORD'' = Inr p"
    by (auto simp: isl_def) (metis sum.exhaust)
  from assms(2) have "c \<noteq> GetEndpoints k s"
    by auto
  with assms(1) show ?thesis
    unfolding setupChargebeeWebhook_fetch_env [OF env]
    by (auto split: option.splits) blast+
qed

lemma setupChargebeeWebhook_sdk_writes:
  assumes "c \<in> set (fst (setupChargebeeWebhook_sdk mode url env remote))"
      and "write_body c = Some b"
  shows "\<exists>u p. (\<exists>i. c \<in> set (fst (updateChargebeeWebhookEndpoint_sdk i url u p remote)))
           \<or> c \<in> set (fst (createChargebeeWebhookEndpoint_sdk url u p remote))"
proof (cases "isl (getEnvVar env ''CHARGEBEE_WEBHOOK_USERNAME'')
    \<or> isl (getEnvVar env ''CHARGEBEE_WEBHOOK_PASSWORD'')")
  case True
  then have "fst (setupChargebeeWebhook_sdk mode url env remote) = []"
    unfolding setupChargebeeWebhook_sdk_def
    by (auto split: sum.splits)
  with assms(1) show ?thesis by simp
next
  case False
  then obtain u p where env:
    "getEnvVar env ''CHARGEBEE_WEBHOOK_USERNAME'' = Inr u"
    "getEnvVar env ''CHARGEBEE_WEBHOOK_PASSWORD'' = Inr p"
    by (auto simp: isl_def) (metis sum.exhaust)
  from assms(2) have "c \<noteq> SdkListEndpoints"
    by auto
  with assms(1) show ?thesis
    unfolding setupChargebeeWebhook_sdk_env [OF env]
    by (auto split: option.splits)
qed

lemma main_fetch_writes:
  assumes "c \<in> set (calls (main_fetch env argv remote))" and "write_body c = Some b"
  shows "\<exists>mode url. c \<in> set (fst (setupChargebeeWebhook_fetch mode url env remote))"
proof -
  have not_gateway: "c \<notin> set (fst (setupHookdeckConnections_fetch mode env remote))" for mode
    using write_body_kind [OF assms(2)] gateway_call_kinds [of c _ mode env remote]
    unfolding setupHookdeckConnections_fetch_def by blast
  show ?thesis
  proof (cases rule: main_fetch_cases [of env argv remote])
    case rejected
    with assms(1) show ?thesis by simp
  next
    case (gateway mode e)
    with assms(1) not_gateway show ?thesis by simp
  next
    case (billing_failed mode sourceUrl e)
    with assms(1) not_gateway show ?thesis by auto
  next
    case (completed mode sourceUrl)
    with assms(1) not_gateway show ?thesis by auto
  qed
qed

lemma main_sdk_writes:
  assumes "c \<in> set (calls (main_sdk env argv remote))" and "write_body c = Some b"
  shows "\<exists>mode url. c \<in> set (fst (setupChargebeeWebhook_sdk mode url env remote))"
proof -
  have not_gateway: "c \<notin> set (fst (setupHookdeckConnections_sdk mode env remote))" for mode
    using write_body_kind [OF assms(2)] gateway_call_kinds [of c _ mode env remote]
    unfolding setupHookdeckConnections_sdk_def by blast
  show ?thesis
  proof (cases rule: main_sdk_cases [of env argv remote])
    case rejected
    with assms(1) show ?thesis by simp
  next
    case (gateway mode e)
    with assms(1) not_gateway show ?thesis by simp
  next
    case (billing_failed mode sourceUrl e)
    with assms(1) not_gateway show ?thesis by auto
  next
    case (completed mode sourceUrl)
    with assms(1) not_gateway show ?thesis by auto
  qed
qed

lemma ALL_WEBHOOK_EVENTS_eq:
  "ALL_WEBHOOK_EVENTS =
         [''customer_created'', ''customer_changed'', ''customer_deleted'',
          ''customer_moved_in'', ''customer_moved_out'',
          ''subscription_created'', ''subscription_started'',
          ''subscription_activated'', ''subscription_changed'',
          ''subscription_cancelled'', ''subscription_reactivated'',
          ''subscription_renewed'', ''subscription_scheduled_cancellation_removed'',
          ''subscription_changes_scheduled'',
          ''subscription_scheduled_changes_removed'',
          ''subscription_shipping_address_updated'', ''subscription_deleted'',
          ''subscription_resumed'', ''subscription_paused'',
          ''payment_succeeded'']"
  by (simp add: ALL_WEBHOOK_EVENTS_def)

subsection \<open>C2: the event list sent to the billing provider\<close>

text \<open>
  C2, as the code has it. In the later revision every request that creates or updates the
  billing endpoint, on every run, carries under \<^verbatim>\<open>enabled_events\<close> the list
  \<^verbatim>\<open>ALL_WEBHOOK_EVENTS\<close>: 20 identifiers, five customer events, fourteen subscription
  events and \<^verbatim>\<open>payment_succeeded\<close>. In the earlier revision every such request, on every
  run, carries under \<^verbatim>\<open>webhook_events\<close> (and not under \<^verbatim>\<open>enabled_events\<close>) one fixed list
  of 21 identifiers: those 20 and \<^verbatim>\<open>customer_updated\<close>. In each revision the list is the
  same for creation and for update.
\<close>

theorem subscribed_events:
  "(c \<in> set (calls (script_sdk env argv remote)) \<and> write_body c = Some b \<longrightarrow>
      field ''enabled_events'' b = Some (JArray (map JString ALL_WEBHOOK_EVENTS)))
   \<and> (c \<in> set (calls (script_fetch env argv remote)) \<and> write_body c = Some b \<longrightarrow>
      field ''webhook_events'' b = Some (JArray (map JString
         [''customer_created'', ''customer_updated'', ''customer_deleted'',
          ''customer_changed'', ''customer_moved_in'', ''customer_moved_out'',
          ''subscription_created'', ''subscription_started'',
          ''subscription_activated'', ''subscription_changed'',
          ''subscription_cancelled'', ''subscription_reactivated'',
          ''subscription_renewed'', ''subscription_scheduled_cancellation_removed'',
          ''subscription_changes_scheduled'',
          ''subscription_scheduled_changes_removed'',
          ''subscription_shipping_address_updated'', ''subscription_deleted'',
          ''subscription_paused'', ''subscription_resumed'',
          ''payment_succeeded'']))
      \<and> field ''enabled_events'' b = None)
   \<and> ALL_WEBHOOK_EVENTS =
         [''customer_created'', ''customer_changed'', ''customer_deleted'',
          ''customer_moved_in'', ''customer_moved_out'',
          ''subscription_created'', ''subscription_started'',
          ''subscription_activated'', ''subscription_changed'',
          ''subscription_cancelled'', ''subscription_reactivated'',
          ''subscription_renewed'', ''subscription_scheduled_cancellation_removed'',
          ''subscription_changes_scheduled'',
          ''subscription_scheduled_changes_removed'',
          ''subscription_shipping_address_updated'', ''subscription_deleted'',
          ''subscription_resumed'', ''subscription_paused'',
          ''payment_succeeded'']
   \<and> length ALL_WEBHOOK_EVENTS = 20
   \<and> length (filter (prefix ''customer_'') ALL_WEBHOOK_EVENTS) = 5
   \<and> length (filter (prefix ''subscription_'') ALL_WEBHOOK_EVENTS) = 14
   \<and> filter (\<lambda>e. \<not> prefix ''customer_'' e \<and> \<not> prefix ''subscription_'' e) ALL_WEBHOOK_EVENTS
       = [''payment_succeeded'']"
proof (intro conjI impI)
  assume a: "c \<in> set (calls (script_sdk env argv remote)) \<and> write_body c = Some b"
  then have "script_sdk env argv remote = main_sdk env argv remote"
    using script_sdk_cases [of env argv remote] by auto
  with a main_sdk_writes [of c env argv remote b]
  obtain mode url where "c \<in> set (fst (setupChargebeeWebhook_sdk mode url env remote))"
    by auto
  with a setupChargebeeWebhook_sdk_writes [of c mode url env remote b]
  show "field ''enabled_events'' b = Some (JArray (map JString ALL_WEBHOOK_EVENTS))"
    using update_sdk_events create_sdk_events by blast
next
  assume a: "c \<in> set (calls (script_fetch env argv remote)) \<and> write_body c = Some b"
  with main_fetch_writes [of c env argv remote b]
  obtain mode url where "c \<in> set (fst (setupChargebeeWebhook_fetch mode url env remote))"
    unfolding script_fetch_def by auto
  with a setupChargebeeWebhook_fetch_writes [of c mode url env remote b]
  obtain k s u p where
    "(\<exists>i. c \<in> set (fst (updateChargebeeWebhookEndpoint_fetch k s i url u p remote)))
       \<or> c \<in> set (fst (createChargebeeWebhookEndpoint_fetch k s url u p remote))"
    by blast
  then show "field ''webhook_events'' b = Some (JArray (map JString
         [''customer_created'', ''customer_updated'', ''customer_deleted'',
          ''customer_changed'', ''customer_moved_in'', ''customer_moved_out'',
          ''subscription_created'', ''subscription_started'',
          ''subscription_activated'', ''subscription_changed'',
          ''subscription_cancelled'', ''subscription_reactivated'',
          ''subscription_renewed'', ''subscription_scheduled_cancellation_removed'',
          ''subscription_changes_scheduled'',
          ''subscription_scheduled_changes_removed'',
          ''subscription_shipping_address_updated'', ''subscription_deleted'',
          ''subscription_paused'', ''subscription_resumed'',
          ''payment_succeeded'']))"
    and "field ''enabled_events'' b = None"
    using a update_fetch_events [of c k s _ url u p remote b]
      create_fetch_events [of c k s url u p remote b] by auto
next
  show "ALL_WEBHOOK_EVENTS =
         [''customer_created'', ''customer_changed'', ''customer_deleted'',
          ''customer_moved_in'', ''customer_moved_out'',
          ''subscription_created'', ''subscription_started'',
          ''subscription_activated'', ''subscription_changed'',
          ''subscription_cancelled'', ''subscription_reactivated'',
          ''subscription_renewed'', ''subscription_scheduled_cancellation_removed'',
          ''subscription_changes_scheduled'',
          ''subscription_scheduled_changes_removed'',
          ''subscription_shipping_address_updated'', ''subscription_deleted'',
          ''subscription_resumed'', ''subscription_paused'',
          ''payment_succeeded'']"
    by (rule ALL_WEBHOOK_EVENTS_eq)
  show "length ALL_WEBHOOK_EVENTS = 20"
    by (simp add: ALL_WEBHOOK_EVENTS_def)
  show "length (filter (prefix ''customer_'') ALL_WEBHOOK_EVENTS) = 5"
    by (simp add: ALL_WEBHOOK_EVENTS_def)
  show "length (filter (prefix ''subscription_'') ALL_WEBHOOK_EVENTS) = 14"
    by (simp add: ALL_WEBHOOK_EVENTS_def)
  show "filter (\<lambda>e. \<not> prefix ''customer_'' e \<and> \<not> prefix ''subscription_'' e) ALL_WEBHOOK_EVENTS
       = [''payment_succeeded'']"
    by (simp add: ALL_WEBHOOK_EVENTS_def)
qed

theorem subscribed_events_witness:
  "calls (script_sdk env_dev [''node'', ''upsert-connections.ts'', ''dev''] remote_existing) ! 5 \<in> set (calls (script_sdk env_dev [''node'', ''upsert-connections.ts'', ''dev''] remote_existing))
   \<and> write_body (calls (script_sdk env_dev [''node'', ''upsert-connections.ts'', ''dev''] remote_existing) ! 5) = Some (JObject
        [(''url'', JString ''https://hkdk.example/abc''),
         (''api_version'', JString ''v2''),
         (''basic_auth_username'', JString ''hook_user''),
         (''basic_auth_password'', JString ''hook_pass''),
         (''enabled_events'', JArray (map JString ALL_WEBHOOK_EVENTS))])
   \<and> field ''enabled_events'' (JObject
        [(''url'', JString ''https://hkdk.example/abc''),
         (''api_version'', JString ''v2''),
         (''basic_auth_username'', JString ''hook_user''),
         (''basic_auth_password'', JString ''hook_pass''),
         (''enabled_events'', JArray (map JString ALL_WEBHOOK_EVENTS))]) = Some (JArray (map JString ALL_WEBHOOK_EVENTS))
   \<and> calls (script_fetch env_dev [''node'', ''upsert-connections.ts'', ''dev''] remote_ok) ! 5 \<in> set (calls (script_fetch env_dev [''node'', ''upsert-connections.ts'', ''dev''] remote_ok))
   \<and> write_body (calls (script_fetch env_dev [''node'', ''upsert-connections.ts'', ''dev''] remote_ok) ! 5) = Some (JObject
        [(''name'', JString ''Hookdeck Webhook Endpoint''),
         (''url'', JString ''https://hkdk.example/abc''),
         (''webhook_events'', JArray (map JString
            [''customer_created'', ''customer_updated'', ''customer_deleted'',
          ''customer_changed'', ''customer_moved_in'', ''customer_moved_out'',
          ''subscription_created'', ''subscription_started'',
          ''subscription_activated'', ''subscription_changed'',
          ''subscription_cancelled'', ''subscription_reactivated'',
          ''subscription_renewed'', ''subscription_scheduled_cancellation_removed'',
          ''subscription_changes_scheduled'',
          ''subscription_scheduled_changes_removed'',
          ''subscription_shipping_address_updated'', ''subscription_deleted'',
          ''subscription_paused'', ''subscription_resumed'',
          ''payment_succeeded''])),
         (''api_version'', JString ''v2''),
         (''webhook_authentication'', JObject
            [(''type'', JString ''basic_auth''),
             (''username'', JString ''hook_user''),
             (''password'', JString ''hook_pass'')])])
   \<and> field ''enabled_events'' (JObject
        [(''name'', JString ''Hookdeck Webhook Endpoint''),
         (''url'', JString ''https://hkdk.example/abc''),
         (''webhook_events'', JArray (map JString
            [''customer_created'', ''customer_updated'', ''customer_deleted'',
          ''customer_changed'', ''customer_moved_in'', ''customer_moved_out'',
          ''subscription_created'', ''subscription_started'',
          ''subscription_activated'', ''subscription_changed'',
          ''subscription_cancelled'', ''subscription_reactivated'',
          ''subscription_renewed'', ''subscription_scheduled_cancellation_removed'',
          ''subscription_changes_scheduled'',
          ''subscription_scheduled_changes_removed'',
          ''subscription_shipping_address_updated'', ''subscription_deleted'',
          ''subscription_paused'', ''subscription_resumed'',
          ''payment_succeeded''])),
         (''api_version'', JString ''v2''),
         (''webhook_authentication'', JObject
            [(''type'', JString ''basic_auth''),
             (''username'', JString ''hook_user''),
             (''password'', JString ''hook_pass'')])]) = None"
proof -
  define R1 where "R1 = script_sdk env_dev [''node'', ''upsert-connections.ts'', ''dev''] remote_existing"
  define R2 where "R2 = script_fetch env_dev [''node'', ''upsert-connections.ts'', ''dev''] remote_ok"
  define b1 where "b1 = (JObject
        [(''url'', JString ''https://hkdk.example/abc''),
         (''api_version'', JString ''v2''),
         (''basic_auth_username'', JString ''hook_user''),
         (''basic_auth_password'', JString ''hook_pass''),
         (''enabled_events'', JArray (map JString ALL_WEBHOOK_EVENTS))])"
  define b2 where "b2 = (JObject
        [(''name'', JString ''Hookdeck Webhook Endpoint''),
         (''url'', JString ''https://hkdk.example/abc''),
         (''webhook_events'', JArray (map JString
            [''customer_created'', ''customer_updated'', ''customer_deleted'',
          ''customer_changed'', ''customer_moved_in'', ''customer_moved_out'',
          ''subscription_created'', ''subscription_started'',
          ''subscription_activated'', ''subscription_changed'',
          ''subscription_cancelled'', ''subscription_reactivated'',
          ''subscription_renewed'', ''subscription_scheduled_cancellation_removed'',
          ''subscription_changes_scheduled'',
          ''subscription_scheduled_changes_removed'',
          ''subscription_shipping_address_updated'', ''subscription_deleted'',
          ''subscription_paused'', ''subscription_resumed'',
          ''payment_succeeded''])),
         (''api_version'', JString ''v2''),
         (''webhook_authentication'', JObject
            [(''type'', JString ''basic_auth''),
             (''username'', JString ''hook_user''),
             (''password'', JString ''hook_pass'')])])"
  have c1: "calls R1 = butlast (calls R1) @ [SdkUpdateEndpoint ''ep_1'' b1]"
    unfolding R1_def b1_def by (simp add: run_defs)
  have c2: "calls R2 = butlast (calls R2) @ [PostCreateEndpoint ''cb_key'' ''acme-test'' b2]"
    unfolding R2_def b2_def by (simp add: run_defs)
  have l1: "length (calls R1) = 6"
    unfolding R1_def by (simp add: run_defs)
  have l2: "length (calls R2) = 6"
    unfolding R2_def by (simp add: run_defs)
  have n1: "calls R1 ! 5 = SdkUpdateEndpoint ''ep_1'' b1"
    using l1 by (subst c1) (simp add: nth_append)
  have n2: "calls R2 ! 5 = PostCreateEndpoint ''cb_key'' ''acme-test'' b2"
    using l2 by (subst c2) (simp add: nth_append)
  have h1: "calls R1 ! 5 \<in> set (calls R1) \<and> write_body (calls R1 ! 5) = Some b1"
    using l1 by (simp add: n1 [symmetric]) (simp add: n1)
  have h2: "calls R2 ! 5 \<in> set (calls R2) \<and> write_body (calls R2 ! 5) = Some b2"
    using l2 by (simp add: n2 [symmetric]) (simp add: n2)
  note T1 = subscribed_events
    [of "calls R1 ! 5" env_dev "[''node'', ''upsert-connections.ts'', ''dev'']"
        remote_existing b1, THEN conjunct1, THEN mp, folded R1_def, OF h1]
  note T2 = subscribed_events
    [of "calls R2 ! 5" env_dev "[''node'', ''upsert-connections.ts'', ''dev'']"
        remote_ok b2, THEN conjunct2, THEN conjunct1, THEN mp, folded R2_def, OF h2,
        THEN conjunct2]
  have "calls R1 ! 5 \<in> set (calls R1)
   \<and> write_body (calls R1 ! 5) = Some b1
   \<and> field ''enabled_events'' b1 = Some (JArray (map JString ALL_WEBHOOK_EVENTS))
   \<and> calls R2 ! 5 \<in> set (calls R2)
   \<and> write_body (calls R2 ! 5) = Some b2
   \<and> field ''enabled_events'' b2 = None"
    by (intro conjI h1 [THEN conjunct1] h1 [THEN conjunct2] T1
          h2 [THEN conjunct1] h2 [THEN conjunct2] T2)
  then show ?thesis
    unfolding R1_def R2_def b1_def b2_def .
qed

text \<open>
  C2 as the spec words it fails on the earlier revision: the request that creates the
  billing endpoint has no \<^verbatim>\<open>enabled_events\<close>, and the list it carries under
  \<^verbatim>\<open>webhook_events\<close> has 21 entries, \<^verbatim>\<open>customer_updated\<close> among them, which is not
  in \<^verbatim>\<open>ALL_WEBHOOK_EVENTS\<close>.
\<close>

theorem subscribed_events_counterexample:
  "write_body (calls (script_fetch env_dev [''node'', ''upsert-connections.ts'', ''dev''] remote_ok) ! 5) = Some (JObject
        [(''name'', JString ''Hookdeck Webhook Endpoint''),
         (''url'', JString ''https://hkdk.example/abc''),
         (''webhook_events'', JArray (map JString
            [''customer_created'', ''customer_updated'', ''customer_deleted'',
          ''customer_changed'', ''customer_moved_in'', ''customer_moved_out'',
          ''subscription_created'', ''subscription_started'',
          ''subscription_activated'', ''subscription_changed'',
          ''subscription_cancelled'', ''subscription_reactivated'',
          ''subscription_renewed'', ''subscription_scheduled_cancellation_removed'',
          ''subscription_changes_scheduled'',
          ''subscription_scheduled_changes_removed'',
          ''subscription_shipping_address_updated'', ''subscription_deleted'',
          ''subscription_paused'', ''subscription_resumed'',
          ''payment_succeeded''])),
         (''api_version'', JString ''v2''),
         (''webhook_authentication'', JObject
            [(''type'', JString ''basic_auth''),
             (''username'', JString ''hook_user''),
             (''password'', JString ''hook_pass'')])])
   \<and> field ''enabled_events'' (JObject
        [(''name'', JString ''Hookdeck Webhook Endpoint''),
         (''url'', JString ''https://hkdk.example/abc''),
         (''webhook_events'', JArray (map JString
            [''customer_created'', ''customer_updated'', ''customer_deleted'',
          ''customer_changed'', ''customer_moved_in'', ''customer_moved_out'',
          ''subscription_created'', ''subscription_started'',
          ''subscription_activated'', ''subscription_changed'',
          ''subscription_cancelled'', ''subscription_reactivated'',
          ''subscription_renewed'', ''subscription_scheduled_cancellation_removed'',
          ''subscription_changes_scheduled'',
          ''subscription_scheduled_changes_removed'',
          ''subscription_shipping_address_updated'', ''subscription_deleted'',
          ''subscription_paused'', ''subscription_resumed'',
          ''payment_succeeded''])),
         (''api_version'', JString ''v2''),
         (''webhook_authentication'', JObject
            [(''type'', JString ''basic_auth''),
             (''username'', JString ''hook_user''),
             (''password'', JString ''hook_pass'')])]) = None
   \<and> field ''webhook_events'' (JObject
        [(''name'', JString ''Hookdeck Webhook Endpoint''),
         (''url'', JString ''https://hkdk.example/abc''),
         (''webhook_events'', JArray (map JString
            [''customer_created'', ''customer_updated'', ''customer_deleted'',
          ''customer_changed'', ''customer_moved_in'', ''customer_moved_out'',
          ''subscription_created'', ''subscription_started'',
          ''subscription_activated'', ''subscription_changed'',
          ''subscription_cancelled'', ''subscription_reactivated'',
          ''subscription_renewed'', ''subscription_scheduled_cancellation_removed'',
          ''subscription_changes_scheduled'',
          ''subscription_scheduled_changes_removed'',
          ''subscription_shipping_address_updated'', ''subscription_deleted'',
          ''subscription_paused'', ''subscription_resumed'',
          ''payment_succeeded''])),
         (''api_version'', JString ''v2''),
         (''webhook_authentication'', JObject
            [(''type'', JString ''basic_auth''),
             (''username'', JString ''hook_user''),
             (''password'', JString ''hook_pass'')])]) \<noteq> Some (JArray (map JString ALL_WEBHOOK_EVENTS))
   \<and> length [''customer_created'', ''customer_updated'', ''customer_deleted'',
          ''customer_changed'', ''customer_moved_in'', ''customer_moved_out'',
          ''subscription_created'', ''subscription_started'',
          ''subscription_activated'', ''subscription_changed'',
          ''subscription_cancelled'', ''subscription_reactivated'',
          ''subscription_renewed'', ''subscription_scheduled_cancellation_removed'',
          ''subscription_changes_scheduled'',
          ''subscription_scheduled_changes_removed'',
          ''subscription_shipping_address_updated'', ''subscription_deleted'',
          ''subscription_paused'', ''subscription_resumed'',
          ''payment_succeeded''] = 21
   \<and> ''customer_updated'' \<in> set [''customer_created'', ''customer_updated'', ''customer_deleted'',
          ''customer_changed'', ''customer_moved_in'', ''customer_moved_out'',
          ''subscription_created'', ''subscription_started'',
          ''subscription_activated'', ''subscription_changed'',
          ''subscription_cancelled'', ''subscription_reactivated'',
          ''subscription_renewed'', ''subscription_scheduled_cancellation_removed'',
          ''subscription_changes_scheduled'',
          ''subscription_scheduled_changes_removed'',
          ''subscription_shipping_address_updated'', ''subscription_deleted'',
          ''subscription_paused'', ''subscription_resumed'',
          ''payment_succeeded'']
   \<and> ''customer_updated'' \<notin> set ALL_WEBHOOK_EVENTS"
  by (simp add: run_defs ALL_WEBHOOK_EVENTS_def)

end
